theory Spec2Isabelle
  imports Complex_Main
begin

section \<open>Python floats\<close>

text \<open>
  The program computes in Python floats, IEEE 754 binary64. A float is a finite value
  (a real number, among them the ones a double can hold), an infinity (\<open>True\<close> for the
  positive one) or a NaN. The sign of a zero is not kept: nothing in the program tells
  \<open>-0.0\<close> from \<open>0.0\<close>.
\<close>

datatype pyfloat = Num real | Infinity bool | NaN

datatype exn =
  Exception string
  | APIError string
  | TypeError
  | ValueError
  | OverflowError
  | ValidationError
  | ZeroDivisionError
  | UnboundLocalError
  | AttributeError

text \<open>The nearest integer, a tie going to the even neighbour.\<close>

definition round_half_even :: "real \<Rightarrow> int" where
  "round_half_even y =
     (let f = \<lfloor>y\<rfloor>; d = y - of_int f
      in if d < 1 / 2 then f else if 1 / 2 < d then f + 1 else if even f then f else f + 1)"

text \<open>\<open>ilog2 n\<close> is the integer part of the binary logarithm of \<open>n \<ge> 1\<close>.\<close>

function ilog2 :: "int \<Rightarrow> int" where
  "ilog2 n = (if n \<le> 1 then 0 else 1 + ilog2 (n div 2))"
  by pat_completeness auto
termination
  by (relation "measure nat") auto

declare ilog2.simps [simp del]

definition pow2 :: "int \<Rightarrow> real" where
  "pow2 k = (if 0 \<le> k then 2 ^ nat k else 1 / 2 ^ nat (- k))"

text \<open>For \<open>a > 0\<close>, the exponent \<open>e\<close> with \<open>2 ^ e \<le> a < 2 ^ (e + 1)\<close>.\<close>

definition exponent :: "real \<Rightarrow> int" where
  "exponent a =
     (if 1 \<le> a then ilog2 \<lfloor>a\<rfloor>
      else let b = ilog2 \<lfloor>1 / a\<rfloor> in if a * 2 ^ nat b = 1 then - b else - b - 1)"

text \<open>
  \<open>fl x\<close> is the double nearest to the real \<open>x\<close>, a tie going to the even significand:
  53 significant bits, gradual underflow below \<open>2 ^ (-1022)\<close>, and an infinity from
  \<open>2 ^ 1024\<close> on. It is the result of every arithmetic operation on finite floats, and the
  value of a decimal literal.
\<close>

definition fl :: "real \<Rightarrow> pyfloat" where
  "fl x =
     (if x = 0 then Num 0
      else
        let k = max (exponent \<bar>x\<bar> - 52) (- 1074);
            y = of_int (round_half_even (x / pow2 k)) * pow2 k
        in if 2 ^ 1024 \<le> \<bar>y\<bar> then Infinity (0 < x) else Num y)"

fun fneg :: "pyfloat \<Rightarrow> pyfloat" where
  "fneg (Num x) = Num (- x)"
| "fneg (Infinity s) = Infinity (\<not> s)"
| "fneg NaN = NaN"

fun fabs :: "pyfloat \<Rightarrow> pyfloat" where
  "fabs (Num x) = Num \<bar>x\<bar>"
| "fabs (Infinity s) = Infinity True"
| "fabs NaN = NaN"

fun fadd :: "pyfloat \<Rightarrow> pyfloat \<Rightarrow> pyfloat" where
  "fadd (Num x) (Num y) = fl (x + y)"
| "fadd NaN b = NaN"
| "fadd a NaN = NaN"
| "fadd (Infinity s) (Infinity t) = (if s = t then Infinity s else NaN)"
| "fadd (Num x) (Infinity t) = Infinity t"
| "fadd (Infinity s) (Num y) = Infinity s"

definition fsub :: "pyfloat \<Rightarrow> pyfloat \<Rightarrow> pyfloat" where
  "fsub a b = fadd a (fneg b)"

fun fmul :: "pyfloat \<Rightarrow> pyfloat \<Rightarrow> pyfloat" where
  "fmul (Num x) (Num y) = fl (x * y)"
| "fmul NaN b = NaN"
| "fmul a NaN = NaN"
| "fmul (Infinity s) (Infinity t) = Infinity (s = t)"
| "fmul (Num x) (Infinity t) = (if x = 0 then NaN else Infinity ((0 < x) = t))"
| "fmul (Infinity s) (Num y) = (if y = 0 then NaN else Infinity ((0 < y) = s))"

text \<open>Python's \<open>/\<close> on floats raises on a zero divisor, whatever the dividend.\<close>

fun fdiv :: "pyfloat \<Rightarrow> pyfloat \<Rightarrow> exn + pyfloat" where
  "fdiv a (Num y) =
     (if y = 0 then Inl ZeroDivisionError
      else case a of
             Num x \<Rightarrow> Inr (fl (x / y))
           | Infinity s \<Rightarrow> Inr (Infinity ((0 < y) = s))
           | NaN \<Rightarrow> Inr NaN)"
| "fdiv a (Infinity t) = (case a of Num x \<Rightarrow> Inr (Num 0) | Infinity s \<Rightarrow> Inr NaN | NaN \<Rightarrow> Inr NaN)"
| "fdiv a NaN = Inr NaN"

text \<open>\<open>a < b\<close>; a comparison with a NaN is false. An \<open>int\<close> operand is compared exactly.\<close>

fun fless :: "pyfloat \<Rightarrow> pyfloat \<Rightarrow> bool" where
  "fless (Num x) (Num y) = (x < y)"
| "fless NaN b = False"
| "fless a NaN = False"
| "fless (Infinity s) (Infinity t) = (\<not> s \<and> t)"
| "fless (Num x) (Infinity t) = t"
| "fless (Infinity s) (Num y) = (\<not> s)"

text \<open>Python's truth value of an optional float: \<open>None\<close> and zero are false.\<close>

fun truthy :: "pyfloat option \<Rightarrow> bool" where
  "truthy None = False"
| "truthy (Some (Num x)) = (x \<noteq> 0)"
| "truthy (Some (Infinity s)) = True"
| "truthy (Some NaN) = True"

text \<open>\<open>math.floor\<close>: an \<open>OverflowError\<close> on an infinity, a \<open>ValueError\<close> on a NaN.\<close>

fun pyfloor :: "pyfloat \<Rightarrow> exn + int" where
  "pyfloor (Num x) = Inr \<lfloor>x\<rfloor>"
| "pyfloor (Infinity s) = Inl OverflowError"
| "pyfloor NaN = Inl ValueError"

text \<open>
  Python's \<open>round(x, 2)\<close>: the exact value of \<open>x\<close> is rounded to the nearest hundredth, a
  tie going to the even one, and the result is the double nearest to that decimal. An
  infinity and a NaN are returned as they are.
\<close>

fun round2 :: "pyfloat \<Rightarrow> pyfloat" where
  "round2 (Num x) = fl (of_int (round_half_even (x * 100)) / 100)"
| "round2 (Infinity s) = Infinity s"
| "round2 NaN = NaN"

section \<open>Data model\<close>

text \<open>
  Modelled from the spec: the class \<open>Order\<close> of \<open>lib/db.py\<close>, the trade signal posted to
  the webhook, is not among the sources. Its fields carry the names under which \<open>app.py\<close>
  and \<open>lib/utils.py\<close> read them, with the types and value ranges of the spec's data model
  (\<open>TradeSignal\<close>): the action is buy or sell, the desired market position long, short or
  flat, the asset class stock or crypto, and the percentages are optional floats.
\<close>

datatype action = Buy | Sell

datatype market_position = Long | Short | Flat

datatype asset_class = Stock | Crypto

record order =
  ticker :: string
  action :: action
  market_position :: market_position
  price :: pyfloat
  buying_power_pct :: pyfloat
  leveraged :: bool
  asset_class :: asset_class
  sl :: "pyfloat option"
  tp :: "pyfloat option"
  trailing_stop :: "pyfloat option"
  max_slippage :: "pyfloat option"
  high :: "pyfloat option"
  nickname :: "string option"
  order_id :: "string option"

text \<open>The broker's enumerations, as far as the source names their members.\<close>

datatype OrderStatus =
  NEW | PARTIALLY_FILLED | FILLED | DONE_FOR_DAY | CANCELED | EXPIRED | OTHER_STATUS

datatype OrderSide = BUY | SELL

datatype TimeInForce = DAY | GTC

datatype OrderClass = SIMPLE | BRACKET

datatype PositionSide = LONG | SHORT

datatype request_type =
  MarketOrder | LimitOrder | StopOrder | StopLimitOrder | TrailingStopOrder

text \<open>
  An order request: one record for the request classes \<open>MarketOrderRequest\<close>,
  \<open>LimitOrderRequest\<close>, \<open>StopOrderRequest\<close>, \<open>StopLimitOrderRequest\<close> and
  \<open>TrailingStopOrderRequest\<close>; a keyword the source does not pass is \<open>None\<close>
  (\<open>False\<close> for \<open>extended_hours\<close>). \<open>stop_loss\<close> holds the stop price of a
  \<open>StopLossRequest\<close>, \<open>take_profit\<close> the limit price of a \<open>TakeProfitRequest\<close>. The
  quantity is the integer of \<open>math.floor\<close> for an entry and the broker's \<open>filled_qty\<close>,
  passed on as it is, for an exit.
\<close>

record order_request =
  request_type :: request_type
  symbol :: string
  qty :: real
  time_in_force :: TimeInForce
  side :: OrderSide
  req_extended_hours :: bool
  limit_price :: "pyfloat option"
  stop_price :: "pyfloat option"
  trail_percent :: "pyfloat option"
  stop_loss :: "pyfloat option"
  take_profit :: "pyfloat option"
  order_class :: "OrderClass option"

text \<open>
  The broker's order as the source reads it; the average price, which the source converts
  with \<open>float\<close>, is absent until a fill.
\<close>

record alpaca_order =
  id' :: string
  ao_symbol :: string
  status :: OrderStatus
  filled_qty :: real
  filled_avg_price :: "pyfloat option"

record position =
  pos_side :: PositionSide

record account =
  buying_power :: pyfloat
  non_marginable_buying_power :: pyfloat
  equity :: real
  daytrade_count :: int

record clock =
  is_open :: bool
  hour :: nat

record quote =
  bid_price :: pyfloat
  ask_price :: pyfloat

section \<open>The broker, the market data service and the wall clock\<close>

text \<open>
  Every call the program makes to the outside is recorded, in order, in a trace of events.
  The outside is any family of functions from the trace so far (and the call's arguments) to
  the call's outcome, so that a broker may answer the same call differently each time;
  \<open>Inl\<close> is a raised exception. \<open>time_r\<close> is the reading of \<open>time.time()\<close> after the
  events of the trace.
\<close>

datatype event =
  GetAccount
  | GetClock
  | GetOpenPosition string
  | SubmitOrder order_request
  | GetOrderById string
  | CancelOrderById string
  | ClosePosition string real
  | GetLatestQuote string asset_class
  | Sleep real

record env =
  get_account_r :: "event list \<Rightarrow> exn + account"
  get_clock_r :: "event list \<Rightarrow> exn + clock"
  get_open_position_r :: "event list \<Rightarrow> string \<Rightarrow> exn + position"
  submit_order_r :: "event list \<Rightarrow> order_request \<Rightarrow> exn + alpaca_order"
  get_order_by_id_r :: "event list \<Rightarrow> string \<Rightarrow> exn + alpaca_order"
  cancel_order_by_id_r :: "event list \<Rightarrow> string \<Rightarrow> exn option"
  close_position_r :: "event list \<Rightarrow> string \<Rightarrow> real \<Rightarrow> exn + alpaca_order"
  get_latest_quote_r :: "event list \<Rightarrow> string \<Rightarrow> asset_class \<Rightarrow> exn + quote"
  time_r :: "event list \<Rightarrow> real"

section \<open>lib/utils.py\<close>

definition FINISHED_STATUSES :: "OrderStatus list" where
  "FINISHED_STATUSES = [FILLED, CANCELED, EXPIRED, DONE_FOR_DAY]"

definition MAX_WAIT :: real where
  "MAX_WAIT = 30"

text \<open>
  The polling loop that \<open>exec_trade\<close> contains twice (lines 176-182 and 255-261) and
  \<open>close_position\<close> once (lines 282-288), with the same body. An exception of
  \<open>get_order_by_id\<close> leaves the loop with the order last bound to the loop variable.
  The loop need not end, so the result is an option: \<open>None\<close> is a loop that runs forever.
\<close>

partial_function (option) fill_wait ::
  "env \<Rightarrow> real \<Rightarrow> alpaca_order \<Rightarrow> event list
     \<Rightarrow> (((exn \<times> alpaca_order) + alpaca_order) \<times> event list) option"
where
  "fill_wait E start ao tr =
     (if status ao \<in> set FINISHED_STATUSES then Some (Inr ao, tr)
      else
        let tr1 = (if status ao \<noteq> NEW then tr @ [Sleep (1 / 4)] else tr);
            tr2 = tr1 @ [GetOrderById (id' ao)]
        in case get_order_by_id_r E tr1 (id' ao) of
             Inl e \<Rightarrow> Some (Inl (e, ao), tr2)
           | Inr ao' \<Rightarrow>
               if MAX_WAIT \<le> time_r E tr2 - start then Some (Inr ao', tr2)
               else fill_wait E start ao' tr2)"

text \<open>
  \<open>exec_trade\<close>, lines 92-103: the notional amount and the share quantity. The quotient
  and its floor (line 99) are taken before the check of line 102: a zero price raises
  \<open>ZeroDivisionError\<close>, an infinite or undefined quotient raises in \<open>math.floor\<close>.
\<close>

definition size_order :: "account \<Rightarrow> order \<Rightarrow> exn + (pyfloat \<times> int)" where
  "size_order acct ord =
     (let bp = (if leveraged ord \<or> asset_class ord = Crypto
                then non_marginable_buying_power acct else buying_power acct);
          notional = round2 (fmul bp (buying_power_pct ord))
      in case fdiv notional (price ord) of
           Inl e \<Rightarrow> Inl e
         | Inr x \<Rightarrow>
             (case pyfloor x of
                Inl e \<Rightarrow> Inl e
              | Inr q \<Rightarrow>
                  if fless notional (Num 1)
                  then Inl (Exception ''Notional value is less than $1. Cannot trade.'')
                  else Inr (notional, q)))"

definition qty_error :: exn where
  "qty_error = Exception ''Limit orders must have a integer quantity greater than 0.''"

text \<open>The market order request of lines 105-110, built again at lines 119-124.\<close>

definition market_request :: "order \<Rightarrow> int \<Rightarrow> order_request" where
  "market_request ord q =
     \<lparr>request_type = MarketOrder, symbol = ticker ord, qty = of_int q,
      time_in_force = (if asset_class ord \<noteq> Crypto then DAY else GTC),
      side = (if action ord = Buy then BUY else SELL),
      req_extended_hours = False, limit_price = None, stop_price = None,
      trail_percent = None, stop_loss = None, take_profit = None, order_class = None\<rparr>"

text \<open>The bracket request of lines 139-151.\<close>

definition bracket_request :: "order \<Rightarrow> int \<Rightarrow> order_request" where
  "bracket_request ord q =
     \<lparr>request_type = MarketOrder, symbol = ticker ord, qty = of_int q,
      time_in_force = GTC,
      side = (if action ord = Buy then BUY else SELL),
      req_extended_hours = False, limit_price = None, stop_price = None,
      trail_percent = None,
      stop_loss = Some (round2 (fmul (price ord) (fsub (Num 1) (the (sl ord))))),
      take_profit = Some (round2 (fmul (price ord) (fadd (Num 1) (the (tp ord))))),
      order_class = Some BRACKET\<rparr>"

text \<open>The extended-hours limit request of lines 158-165.\<close>

definition limit_request :: "order \<Rightarrow> int \<Rightarrow> order_request" where
  "limit_request ord q =
     \<lparr>request_type = LimitOrder, symbol = ticker ord, qty = of_int q,
      time_in_force = DAY,
      side = (if action ord = Buy then BUY else SELL),
      req_extended_hours = True,
      limit_price = Some (if truthy (high ord) then the (high ord) else price ord),
      stop_price = None, trail_percent = None, stop_loss = None, take_profit = None,
      order_class = None\<rparr>"

text \<open>\<open>exec_trade\<close>, lines 105-165: the entry request, or the exception raised on the way.\<close>

definition entry_request :: "order \<Rightarrow> bool \<Rightarrow> pyfloat \<Rightarrow> int \<Rightarrow> exn + order_request" where
  "entry_request ord ext_hours notional q =
     (if (truthy (trailing_stop ord) \<or> truthy (sl ord) \<or> truthy (tp ord)) \<and> q < 1
      then Inl qty_error
      else
        case (if \<not> ext_hours \<and> truthy (tp ord) \<and> truthy (sl ord)
              then (if q < 1 then Inl qty_error else Inr (bracket_request ord q))
              else Inr (market_request ord q)) of
          Inl e \<Rightarrow> Inl e
        | Inr order_req \<Rightarrow>
            if ext_hours \<and> asset_class ord \<noteq> Crypto
            then (case fdiv notional (price ord) of
                    Inl e \<Rightarrow> Inl e
                  | Inr x \<Rightarrow>
                      (case pyfloor x of
                         Inl e \<Rightarrow> Inl e
                       | Inr q' \<Rightarrow>
                           if q' < 1 then Inl qty_error else Inr (limit_request ord q')))
            else Inr order_req)"

text \<open>
  \<open>exec_trade\<close>, lines 192-224: the exit request derived from the filled entry.
  \<open>float(alpaca_order.filled_avg_price)\<close> raises a \<open>TypeError\<close> on \<open>None\<close>. The last
  branch is the request left as it was, when no \<open>elif\<close> applies.
\<close>

definition exit_request :: "order \<Rightarrow> alpaca_order \<Rightarrow> order_request \<Rightarrow> exn + order_request" where
  "exit_request ord ao order_req =
     (if truthy (sl ord) then
        (case filled_avg_price ao of
           None \<Rightarrow> Inl TypeError
         | Some p \<Rightarrow>
             Inr \<lparr>request_type = StopOrder, symbol = ao_symbol ao, qty = filled_qty ao,
                  time_in_force = GTC, side = SELL, req_extended_hours = False,
                  limit_price = None,
                  stop_price = Some (round2 (fmul p (fsub (Num 1) (the (sl ord))))),
                  trail_percent = None, stop_loss = None, take_profit = None,
                  order_class = None\<rparr>)
      else if truthy (tp ord) then
        (case filled_avg_price ao of
           None \<Rightarrow> Inl TypeError
         | Some p \<Rightarrow>
             Inr \<lparr>request_type = StopLimitOrder, symbol = ao_symbol ao, qty = filled_qty ao,
                  time_in_force = GTC, side = SELL, req_extended_hours = False,
                  limit_price = Some (round2 (fmul p (fadd (Num 1) (the (tp ord))))),
                  stop_price = Some (round2 (fmul p (fsub (Num 1) (the (tp ord))))),
                  trail_percent = None, stop_loss = None, take_profit = None,
                  order_class = None\<rparr>)
      else if truthy (trailing_stop ord) then
        Inr \<lparr>request_type = TrailingStopOrder, symbol = ao_symbol ao, qty = filled_qty ao,
             time_in_force = GTC, side = SELL, req_extended_hours = False,
             limit_price = None, stop_price = None,
             trail_percent = Some (fmul (the (trailing_stop ord)) (Num 100)),
             stop_loss = None, take_profit = None, order_class = None\<rparr>
      else Inr order_req)"

text \<open>
  What the \<open>try\<close> block of lines 172-224 ends with: the early \<open>return\<close> of line 187,
  falling through with the request to submit, or an exception together with the binding of
  the local variable \<open>alpaca_order\<close> at that moment (\<open>None\<close>: not yet bound).
\<close>

datatype try_result =
  Return alpaca_order
  | Continue order_request
  | Raise exn "alpaca_order option"

definition try_body ::
  "env \<Rightarrow> order \<Rightarrow> order_request \<Rightarrow> event list \<Rightarrow> (try_result \<times> event list) option"
where
  "try_body E ord order_req tr =
     (if truthy (sl ord) \<or> truthy (tp ord) \<or> truthy (trailing_stop ord) then
        (let tr1 = tr @ [SubmitOrder order_req]
         in case submit_order_r E tr order_req of
              Inl e \<Rightarrow> Some (Raise e None, tr1)
            | Inr ao0 \<Rightarrow>
                (case fill_wait E (time_r E tr1) ao0 tr1 of
                   None \<Rightarrow> None
                 | Some (Inl (e, ao), tr2) \<Rightarrow> Some (Raise e (Some ao), tr2)
                 | Some (Inr ao, tr2) \<Rightarrow>
                     if status ao \<noteq> FILLED then
                       (let tr3 = tr2 @ [CancelOrderById (id' ao)]
                        in case cancel_order_by_id_r E tr2 (id' ao) of
                             Some e \<Rightarrow> Some (Raise e (Some ao), tr3)
                           | None \<Rightarrow> Some (Return (ao\<lparr>status := CANCELED\<rparr>), tr3))
                     else
                       (case exit_request ord ao order_req of
                          Inl e \<Rightarrow> Some (Raise e (Some ao), tr2)
                        | Inr req \<Rightarrow> Some (Continue req, tr2))))
      else Some (Continue order_req, tr))"

text \<open>The market sell order of lines 233-238 and 241-246.\<close>

definition liquidation_request :: "alpaca_order \<Rightarrow> order_request" where
  "liquidation_request ao =
     \<lparr>request_type = MarketOrder, symbol = ao_symbol ao, qty = filled_qty ao,
      time_in_force = GTC, side = SELL, req_extended_hours = False,
      limit_price = None, stop_price = None, trail_percent = None,
      stop_loss = None, take_profit = None, order_class = None\<rparr>"

text \<open>
  The \<open>except\<close> block of lines 225-248, which ends by raising: the exception that leaves
  it and the trace. Reading \<open>alpaca_order.status\<close> while the variable is unbound raises
  \<open>UnboundLocalError\<close>; an exception of a broker call made here replaces the caught one.
\<close>

definition handler ::
  "env \<Rightarrow> exn \<Rightarrow> alpaca_order option \<Rightarrow> event list \<Rightarrow> exn \<times> event list"
where
  "handler E e bound tr =
     (case bound of
        None \<Rightarrow> (UnboundLocalError, tr)
      | Some ao \<Rightarrow>
          if status ao = FILLED then
            (case submit_order_r E tr (liquidation_request ao) of
               Inl e' \<Rightarrow> (e', tr @ [SubmitOrder (liquidation_request ao)])
             | Inr _ \<Rightarrow> (e, tr @ [SubmitOrder (liquidation_request ao)]))
          else if status ao = PARTIALLY_FILLED then
            (let tr1 = tr @ [CancelOrderById (id' ao)]
             in case cancel_order_by_id_r E tr (id' ao) of
                  Some e' \<Rightarrow> (e', tr1)
                | None \<Rightarrow>
                    (case submit_order_r E tr1 (liquidation_request ao) of
                       Inl e' \<Rightarrow> (e', tr1 @ [SubmitOrder (liquidation_request ao)])
                     | Inr _ \<Rightarrow> (e, tr1 @ [SubmitOrder (liquidation_request ao)])))
          else (e, tr))"

text \<open>\<open>exec_trade\<close>, lines 250-263: the submission that ends every path but the early return.\<close>

definition submit_tail ::
  "env \<Rightarrow> order_request \<Rightarrow> bool \<Rightarrow> event list \<Rightarrow> ((exn + alpaca_order) \<times> event list) option"
where
  "submit_tail E order_req wait_for_fill tr =
     (let tr1 = tr @ [SubmitOrder order_req]
      in case submit_order_r E tr order_req of
           Inl e \<Rightarrow> Some (Inl e, tr1)
         | Inr ao0 \<Rightarrow>
             if \<not> wait_for_fill then Some (Inr ao0, tr1)
             else
               (case fill_wait E (time_r E tr1) ao0 tr1 of
                  None \<Rightarrow> None
                | Some (Inl (e, ao), tr2) \<Rightarrow> Some (Inl e, tr2)
                | Some (Inr ao, tr2) \<Rightarrow> Some (Inr ao, tr2)))"

definition exec_trade ::
  "env \<Rightarrow> order \<Rightarrow> bool \<Rightarrow> bool \<Rightarrow> event list \<Rightarrow> ((exn + alpaca_order) \<times> event list) option"
where
  "exec_trade E ord ext_hours wait_for_fill tr =
     (let tr0 = tr @ [GetAccount]
      in case get_account_r E tr of
           Inl e \<Rightarrow> Some (Inl e, tr0)
         | Inr acct \<Rightarrow>
             (case size_order acct ord of
                Inl e \<Rightarrow> Some (Inl e, tr0)
              | Inr (notional, q) \<Rightarrow>
                  (case entry_request ord ext_hours notional q of
                     Inl e \<Rightarrow> Some (Inl e, tr0)
                   | Inr order_req \<Rightarrow>
                       if order_class order_req \<noteq> Some BRACKET \<and> action ord = Buy then
                         (case try_body E ord order_req tr0 of
                            None \<Rightarrow> None
                          | Some (Raise e bound, tr1) \<Rightarrow>
                              (case handler E e bound tr1 of (e', tr2) \<Rightarrow> Some (Inl e', tr2))
                          | Some (Return ao, tr1) \<Rightarrow> Some (Inr ao, tr1)
                          | Some (Continue req, tr1) \<Rightarrow> submit_tail E req wait_for_fill tr1)
                       else submit_tail E order_req wait_for_fill tr0)))"

definition get_current_position ::
  "env \<Rightarrow> string \<Rightarrow> event list \<Rightarrow> position option \<times> event list"
where
  "get_current_position E t tr =
     (case get_open_position_r E tr t of
        Inl e \<Rightarrow> (None, tr @ [GetOpenPosition t])
      | Inr p \<Rightarrow> (Some p, tr @ [GetOpenPosition t]))"

text \<open>
  The constructor \<open>ClosePositionRequest\<close> of the broker's library, called at line 278 with
  \<open>percentage=percentage\<close>. The library declares the field as an optional string and
  validates the arguments when the request is built; the source hands it a float, which the
  validation refuses. The result of an accepted construction would be the percentage to
  pass on.
\<close>

definition ClosePositionRequest :: "real \<Rightarrow> exn + real" where
  "ClosePositionRequest percentage = Inl ValidationError"

text \<open>
  \<open>close_position\<close>: the request is built inside the \<open>try\<close>, as the argument of the
  broker call; every exception is swallowed, and the function returns whatever the variable
  \<open>position\<close> is bound to by then (\<open>None\<close> from line 276 when the request could not be
  built or the broker call raised).
\<close>

definition close_position ::
  "env \<Rightarrow> string \<Rightarrow> real \<Rightarrow> bool \<Rightarrow> event list \<Rightarrow> (alpaca_order option \<times> event list) option"
where
  "close_position E t percentage wait_for_fill tr =
     (case ClosePositionRequest percentage of
        Inl e \<Rightarrow> Some (None, tr)
      | Inr pct \<Rightarrow>
          (let tr1 = tr @ [ClosePosition t pct]
           in case close_position_r E tr t pct of
                Inl e \<Rightarrow> Some (None, tr1)
              | Inr p0 \<Rightarrow>
                  if wait_for_fill then
                    (case fill_wait E (time_r E tr1) p0 tr1 of
                       None \<Rightarrow> None
                     | Some (Inl (e, p), tr2) \<Rightarrow> Some (Some p, tr2)
                     | Some (Inr p, tr2) \<Rightarrow> Some (Some p, tr2))
                  else Some (Some p0, tr1)))"

definition is_extended_hours :: "env \<Rightarrow> event list \<Rightarrow> (exn + bool) \<times> event list" where
  "is_extended_hours E tr =
     (case get_clock_r E tr of
        Inl e \<Rightarrow> (Inl e, tr @ [GetClock])
      | Inr c \<Rightarrow>
          (Inr (if is_open c then False else hour c < 20 \<and> 4 \<le> hour c), tr @ [GetClock]))"

section \<open>app.py\<close>

text \<open>
  What the module reads from \<open>lib/constants.py\<close> and \<open>lib/env_vars.py\<close>, which are not
  among the sources, taken as parameters: the whitelist, the test-mode switch and the names
  of the configured accounts (\<open>get_trading_client\<close> returns \<open>None\<close> for any other name).
\<close>

record settings =
  IP_WHITELIST :: "string list"
  TEST_MODE :: bool
  accounts :: "string list"

text \<open>
  The result of \<open>get_client_ip\<close>: one address, or the list split from a header. A list
  is never an element of the whitelist.
\<close>

datatype client_ip = Single string | Many "string list"

fun ip_in :: "client_ip \<Rightarrow> string list \<Rightarrow> bool" where
  "ip_in (Single a) wl = (a \<in> set wl)"
| "ip_in (Many addrs) wl = False"

datatype http_response = JSONResponse string nat | OrderBody order

text \<open>Lines 82-85: the defaults written into the order before it is logged.\<close>

definition with_defaults :: "string \<Rightarrow> order \<Rightarrow> order" where
  "with_defaults name ord =
     (let ord1 = (if nickname ord = None \<or> nickname ord = Some []
                  then ord\<lparr>nickname := Some name\<rparr> else ord)
      in if \<not> truthy (max_slippage ord1) then ord1\<lparr>max_slippage := Some (Num 0)\<rparr> else ord1)"

text \<open>
  Lines 122-126 and 135-139: the trade, then the broker's order id written into the order
  that is returned. Persistence (the session) is left out of the model.
\<close>

definition open_position ::
  "env \<Rightarrow> order \<Rightarrow> bool \<Rightarrow> event list \<Rightarrow> ((exn + http_response) \<times> event list) option"
where
  "open_position E ord ext_hours tr =
     (case exec_trade E ord ext_hours False tr of
        None \<Rightarrow> None
      | Some (Inl e, tr1) \<Rightarrow> Some (Inl e, tr1)
      | Some (Inr new_order, tr1) \<Rightarrow>
          Some (Inr (OrderBody (ord\<lparr>order_id := Some (id' new_order)\<rparr>)), tr1))"

definition side_str :: "PositionSide \<Rightarrow> market_position" where
  "side_str s = (case s of LONG \<Rightarrow> Long | SHORT \<Rightarrow> Short)"

text \<open>
  \<open>webhook\<close>, lines 108-139. \<open>order.max_slippage > 0\<close> raises a \<open>TypeError\<close> on \<open>None\<close>
  (line 85 has replaced it by then), the quotient of line 118 raises on a zero price.
\<close>

definition reconcile ::
  "env \<Rightarrow> order \<Rightarrow> bool \<Rightarrow> event list \<Rightarrow> ((exn + http_response) \<times> event list) option"
where
  "reconcile E ord ext_hours tr =
     (case get_current_position E (ticker ord) tr of
        (None, tr1) \<Rightarrow>
          (case max_slippage ord of
             None \<Rightarrow> Some (Inl TypeError, tr1)
           | Some m \<Rightarrow>
               if fless (Num 0) m then
                 (let tr2 = tr1 @ [GetLatestQuote (ticker ord) (asset_class ord)]
                  in case get_latest_quote_r E tr1 (ticker ord) (asset_class ord) of
                       Inl e \<Rightarrow> Some (Inl e, tr2)
                     | Inr q \<Rightarrow>
                         (let p = (if action ord = Sell then bid_price q else ask_price q)
                          in case fdiv (fsub p (price ord)) (price ord) of
                               Inl e \<Rightarrow> Some (Inl e, tr2)
                             | Inr x \<Rightarrow>
                                 if fless m (fabs x)
                                 then Some (Inr (JSONResponse ''Slippage too high'' 412), tr2)
                                 else open_position E ord ext_hours tr2))
               else open_position E ord ext_hours tr1)
      | (Some pos, tr1) \<Rightarrow>
          if side_str (pos_side pos) = market_position ord \<or> market_position ord = Flat
          then Some (Inr (OrderBody ord), tr1)
          else
            (case close_position E (ticker ord) 100 True tr1 of
               None \<Rightarrow> None
             | Some (close_result, tr2) \<Rightarrow> open_position E ord ext_hours tr2))"

text \<open>
  \<open>webhook\<close>, lines 78-106, then the block of lines 108-139. With no client for the name,
  \<open>client.get_clock()\<close> raises an \<open>AttributeError\<close>. The session calls of lines 87-91
  are left out, as above.
\<close>

definition webhook ::
  "settings \<Rightarrow> env \<Rightarrow> string \<Rightarrow> order \<Rightarrow> client_ip \<Rightarrow> event list
     \<Rightarrow> ((exn + http_response) \<times> event list) option"
where
  "webhook S E name ord0 ip tr =
     (if \<not> ip_in ip (IP_WHITELIST S)
      then Some (Inr (JSONResponse ''IP not in whitelist'' 401), tr)
      else
        let ord = with_defaults name ord0
        in if TEST_MODE S then Some (Inr (OrderBody ord), tr)
           else if name \<notin> set (accounts S) then Some (Inl AttributeError, tr)
           else
             (case is_extended_hours E tr of
                (Inl e, tr1) \<Rightarrow> Some (Inl e, tr1)
              | (Inr ext_hours, tr1) \<Rightarrow>
                  (let tr2 = tr1 @ [GetAccount]
                   in case get_account_r E tr1 of
                        Inl e \<Rightarrow> Some (Inl e, tr2)
                      | Inr acct \<Rightarrow>
                          if 3 \<le> daytrade_count acct \<and> equity acct < 25000
                          then Some (Inr (JSONResponse ''Pattern day trader'' 429), tr2)
                          else reconcile E ord ext_hours tr2)))"

section \<open>Vocabulary of the properties\<close>

text \<open>The events of the polling loop: a status refresh and the pause before it.\<close>

fun is_poll :: "event \<Rightarrow> bool" where
  "is_poll (GetOrderById i) = True"
| "is_poll (Sleep d) = True"
| "is_poll e = False"

text \<open>The order requests submitted in a trace, in order.\<close>

fun submitted :: "event list \<Rightarrow> order_request list" where
  "submitted [] = []"
| "submitted (SubmitOrder r # es) = r # submitted es"
| "submitted (e # es) = submitted es"

text \<open>
  \<open>polls_in_time E start tr evs\<close>: among the events \<open>evs\<close> that follow the trace \<open>tr\<close>,
  every status refresh but the last one returned less than \<open>MAX_WAIT\<close> seconds after
  \<open>start\<close>.
\<close>

fun polls_in_time :: "env \<Rightarrow> real \<Rightarrow> event list \<Rightarrow> event list \<Rightarrow> bool" where
  "polls_in_time E start tr [] = True"
| "polls_in_time E start tr (e # evs) =
     ((case e of
         GetOrderById i \<Rightarrow> evs = [] \<or> time_r E (tr @ [e]) - start < MAX_WAIT
       | _ \<Rightarrow> True)
      \<and> polls_in_time E start (tr @ [e]) evs)"

text \<open>
  \<open>observed E ao tr evs\<close>: the order last seen when the events \<open>evs\<close> follow the trace
  \<open>tr\<close>, starting from the order \<open>ao\<close>: each status refresh that the broker answers
  replaces it, a refresh that raises leaves it.
\<close>

fun observed :: "env \<Rightarrow> alpaca_order \<Rightarrow> event list \<Rightarrow> event list \<Rightarrow> alpaca_order" where
  "observed E ao tr [] = ao"
| "observed E ao tr (e # evs) =
     observed E
       (case e of
          GetOrderById i \<Rightarrow> (case get_order_by_id_r E tr i of Inl x \<Rightarrow> ao | Inr a \<Rightarrow> a)
        | _ \<Rightarrow> ao)
       (tr @ [e]) evs"

text \<open>
  What a finished polling loop, started on the order \<open>ao\<close>, has done. It added only
  refreshes and pauses to the trace, none of them after the deadline was seen. It hands
  back the order last seen: either as its result, and then that order is in a finished
  status or the deadline has passed (or no refresh was made at all); or together with the
  exception that the last refresh raised.
\<close>

definition wait_result_ok ::
  "env \<Rightarrow> real \<Rightarrow> alpaca_order \<Rightarrow> event list
     \<Rightarrow> ((exn \<times> alpaca_order) + alpaca_order) \<times> event list \<Rightarrow> bool"
where
  "wait_result_ok E start ao tr y =
     (\<exists>evs. snd y = tr @ evs \<and> list_all is_poll evs \<and> polls_in_time E start tr evs
        \<and> (case fst y of
              Inr a \<Rightarrow>
                observed E ao tr evs = a
                \<and> (status a \<in> set FINISHED_STATUSES
                    \<or> evs \<noteq> [] \<and> MAX_WAIT \<le> time_r E (snd y) - start)
            | Inl (e, a) \<Rightarrow>
                observed E ao tr evs = a \<and> status a \<notin> set FINISHED_STATUSES
                \<and> (\<exists>pre. evs = pre @ [GetOrderById (id' a)]
                          \<and> get_order_by_id_r E (tr @ pre) (id' a) = Inl e)))"

text \<open>
  The wall clock moves: a pause does not turn it back, and every status refresh takes at
  least \<open>d\<close> seconds.
\<close>

definition clock_advances :: "env \<Rightarrow> real \<Rightarrow> bool" where
  "clock_advances E d \<longleftrightarrow>
     0 < d \<and> (\<forall>tr x. time_r E tr \<le> time_r E (tr @ [Sleep x]))
           \<and> (\<forall>tr i. time_r E tr + d \<le> time_r E (tr @ [GetOrderById i]))"

text \<open>The three kinds of exit order of lines 192-224.\<close>

fun is_exit_order :: "order_request \<Rightarrow> bool" where
  "is_exit_order r =
     (request_type r = StopOrder \<or> request_type r = StopLimitOrder
      \<or> request_type r = TrailingStopOrder)"

subsection \<open>A broker for the examples\<close>

text \<open>
  The floats of the examples are written \<open>Num x\<close> where the double holds \<open>x\<close> exactly and
  \<open>fl x\<close> where a decimal literal denotes the double nearest to \<open>x\<close>.
\<close>

definition demo_account :: account where
  "demo_account =
     \<lparr>buying_power = Num 10000, non_marginable_buying_power = Num 5000, equity = 30000,
      daytrade_count = 0\<rparr>"

definition demo_order :: "OrderStatus \<Rightarrow> alpaca_order" where
  "demo_order st =
     \<lparr>id' = ''o1'', ao_symbol = ''AAPL'', status = st, filled_qty = 0,
      filled_avg_price = None\<rparr>"

definition filled_at :: "pyfloat \<Rightarrow> alpaca_order" where
  "filled_at p =
     \<lparr>id' = ''o1'', ao_symbol = ''AAPL'', status = FILLED, filled_qty = 50,
      filled_avg_price = Some p\<rparr>"

definition demo_filled :: alpaca_order where
  "demo_filled = filled_at (Num 100)"

text \<open>
  No position is held, an order is accepted as new and found filled at the first refresh,
  and every call takes one second.
\<close>

definition demo_env :: env where
  "demo_env =
     \<lparr>get_account_r = (\<lambda>tr. Inr demo_account),
      get_clock_r = (\<lambda>tr. Inr \<lparr>is_open = True, hour = 10\<rparr>),
      get_open_position_r = (\<lambda>tr t. Inl (APIError ''position does not exist'')),
      submit_order_r = (\<lambda>tr r. Inr (demo_order NEW)),
      get_order_by_id_r = (\<lambda>tr i. Inr demo_filled),
      cancel_order_by_id_r = (\<lambda>tr i. None),
      close_position_r = (\<lambda>tr t p. Inr demo_filled),
      get_latest_quote_r = (\<lambda>tr t a. Inr \<lparr>bid_price = Num 100, ask_price = Num 101\<rparr>),
      time_r = (\<lambda>tr. real (length tr))\<rparr>"

text \<open>The same broker when the order stays new and every call takes ten seconds.\<close>

definition stale_env :: env where
  "stale_env =
     demo_env\<lparr>get_order_by_id_r := (\<lambda>tr i. Inr (demo_order NEW)),
              time_r := (\<lambda>tr. 10 * real (length tr))\<rparr>"


text \<open>The same broker with another buying power, average fill price or quote.\<close>

definition funded_env :: "pyfloat \<Rightarrow> env" where
  "funded_env bp =
     demo_env\<lparr>get_account_r := (\<lambda>tr. Inr (demo_account\<lparr>buying_power := bp\<rparr>))\<rparr>"

definition fill_env :: "pyfloat \<Rightarrow> env" where
  "fill_env p = demo_env\<lparr>get_order_by_id_r := (\<lambda>tr i. Inr (filled_at p))\<rparr>"

definition quote_env :: "pyfloat \<Rightarrow> pyfloat \<Rightarrow> env" where
  "quote_env b a =
     demo_env\<lparr>get_latest_quote_r := (\<lambda>tr t c. Inr \<lparr>bid_price = b, ask_price = a\<rparr>)\<rparr>"

definition demo_signal :: order where
  "demo_signal =
     \<lparr>ticker = ''AAPL'', action = Buy, market_position = Long, price = Num 100,
      buying_power_pct = Num (1 / 2), leveraged = False, asset_class = Stock,
      sl = None, tp = None, trailing_stop = None, max_slippage = Some (Num 0),
      high = None, nickname = Some ''acct'', order_id = None\<rparr>"

text \<open>The same broker when it refuses every order.\<close>

definition reject_env :: env where
  "reject_env =
     demo_env\<lparr>submit_order_r := (\<lambda>tr r. Inl (APIError ''insufficient buying power''))\<rparr>"

text \<open>The same broker when it accepts the first order and refuses every later one.\<close>

definition exit_reject_env :: env where
  "exit_reject_env =
     demo_env\<lparr>submit_order_r :=
       (\<lambda>tr r. if submitted tr = [] then Inr (demo_order NEW)
                else Inl (APIError ''order rejected''))\<rparr>"

text \<open>Settings and an account state for the examples of the webhook.\<close>

definition demo_settings :: settings where
  "demo_settings = \<lparr>IP_WHITELIST = [''10.0.0.1''], TEST_MODE = False, accounts = [''acct'']\<rparr>"

definition pdt_env :: "real \<Rightarrow> env" where
  "pdt_env eq =
     demo_env\<lparr>get_account_r := (\<lambda>tr. Inr (demo_account\<lparr>equity := eq, daytrade_count := 3\<rparr>))\<rparr>"

text \<open>
  A broker with a position held on the given side and quotes far from the signal's price,
  and a signal to go short with a slippage limit of one percent.
\<close>

definition hold_env :: "PositionSide \<Rightarrow> env" where
  "hold_env s =
     demo_env\<lparr>get_open_position_r := (\<lambda>tr t. Inr \<lparr>pos_side = s\<rparr>),
              get_latest_quote_r := (\<lambda>tr t a. Inr \<lparr>bid_price = Num 50, ask_price = Num 200\<rparr>)\<rparr>"

definition flip_signal :: order where
  "flip_signal =
     demo_signal\<lparr>action := Sell, market_position := Short, max_slippage := Some (fl (1 / 100))\<rparr>"

section \<open>The polling loop\<close>

lemma fill_wait_finished:
  "status ao \<in> set FINISHED_STATUSES \<Longrightarrow> fill_wait E start ao tr = Some (Inr ao, tr)"
  by (subst fill_wait.simps) simp

lemma fill_wait_poll:
  assumes "status ao \<notin> set FINISHED_STATUSES"
    and "tr1 = (if status ao \<noteq> NEW then tr @ [Sleep (1 / 4)] else tr)"
  shows "fill_wait E start ao tr =
     (case get_order_by_id_r E tr1 (id' ao) of
        Inl e \<Rightarrow> Some (Inl (e, ao), tr1 @ [GetOrderById (id' ao)])
      | Inr ao' \<Rightarrow>
          if MAX_WAIT \<le> time_r E (tr1 @ [GetOrderById (id' ao)]) - start
          then Some (Inr ao', tr1 @ [GetOrderById (id' ao)])
          else fill_wait E start ao' (tr1 @ [GetOrderById (id' ao)]))"
  unfolding assms(2) by (subst fill_wait.simps) (simp only: assms(1) if_False Let_def)

lemma observed_append:
  "observed E ao tr (xs @ ys) = observed E (observed E ao tr xs) (tr @ xs) ys"
  by (induction xs arbitrary: ao tr) simp_all

lemma fill_wait_sound:
  assumes "fill_wait E start ao tr = Some y"
  shows "wait_result_ok E start ao tr y"
  apply (rule fill_wait.raw_induct
      [where P = "\<lambda>E start ao tr y. wait_result_ok E start ao tr y", OF _ assms])
  subgoal premises prems for fw E start ao tr y
  proof (cases "status ao \<in> set FINISHED_STATUSES")
    case True
    with prems(2) have "y = (Inr ao, tr)" by auto
    with True show ?thesis by (simp add: wait_result_ok_def)
  next
    case False
    define pre where "pre = (if status ao \<noteq> NEW then [Sleep (1 / 4)] else [])"
    define tr1 where "tr1 = (if status ao \<noteq> NEW then tr @ [Sleep (1 / 4)] else tr)"
    define tr2 where "tr2 = tr1 @ [GetOrderById (id' ao)]"
    define evs0 where "evs0 = pre @ [GetOrderById (id' ao)]"
    have tr1: "tr1 = tr @ pre" by (simp add: tr1_def pre_def)
    have tr2: "tr2 = tr @ evs0" by (simp add: tr2_def tr1 evs0_def)
    have body: "(case get_order_by_id_r E tr1 (id' ao) of
             Inl e \<Rightarrow> Some (Inl (e, ao), tr2)
           | Inr ao' \<Rightarrow>
               if MAX_WAIT \<le> time_r E tr2 - start then Some (Inr ao', tr2)
               else fw E start ao' tr2) = Some y"
      using prems(2) unfolding Let_def tr2_def tr1_def by (simp only: False if_False)
    have first: "list_all is_poll evs0" "polls_in_time E start tr evs0" "evs0 \<noteq> []"
      by (simp_all add: evs0_def pre_def)
    have seen: "observed E ao tr evs0 =
        (case get_order_by_id_r E tr1 (id' ao) of Inl x \<Rightarrow> ao | Inr a \<Rightarrow> a)"
      by (simp add: evs0_def pre_def tr1_def)
    show ?thesis
    proof (cases "get_order_by_id_r E tr1 (id' ao)")
      case (Inl e)
      with body have y: "y = (Inl (e, ao), tr @ evs0)" by (simp add: tr2)
      have "observed E ao tr evs0 = ao" using seen Inl by simp
      moreover have "\<exists>p. evs0 = p @ [GetOrderById (id' ao)]
          \<and> get_order_by_id_r E (tr @ p) (id' ao) = Inl e"
        using Inl tr1 evs0_def by auto
      ultimately show ?thesis
        using y False first unfolding wait_result_ok_def by auto
    next
      case (Inr ao')
      have seen': "observed E ao tr evs0 = ao'" using seen Inr by simp
      show ?thesis
      proof (cases "MAX_WAIT \<le> time_r E tr2 - start")
        case True
        with Inr body have y: "y = (Inr ao', tr @ evs0)" by (simp add: tr2)
        show ?thesis
          using y True first seen' unfolding wait_result_ok_def tr2 by auto
      next
        case early: False
        with Inr body have "fw E start ao' tr2 = Some y" by simp
        from prems(1)[OF this] have ih: "wait_result_ok E start ao' tr2 y" .
        then obtain evs where evs: "snd y = tr2 @ evs" "list_all is_poll evs"
          "polls_in_time E start tr2 evs"
          and res: "case fst y of
              Inr a \<Rightarrow>
                observed E ao' tr2 evs = a
                \<and> (status a \<in> set FINISHED_STATUSES
                    \<or> evs \<noteq> [] \<and> MAX_WAIT \<le> time_r E (snd y) - start)
            | Inl (e, a) \<Rightarrow>
                observed E ao' tr2 evs = a \<and> status a \<notin> set FINISHED_STATUSES
                \<and> (\<exists>pre. evs = pre @ [GetOrderById (id' a)]
                          \<and> get_order_by_id_r E (tr2 @ pre) (id' a) = Inl e)"
          unfolding wait_result_ok_def by blast
        have a1: "snd y = tr @ (evs0 @ evs)" using evs(1) tr2 by simp
        have a2: "list_all is_poll (evs0 @ evs)" using evs(2) first by simp
        have a3: "polls_in_time E start tr (evs0 @ evs)"
          using evs(3) early unfolding tr2_def tr1_def evs0_def pre_def by auto
        have obs: "observed E ao tr (evs0 @ evs) = observed E ao' tr2 evs"
          by (simp add: observed_append seen' tr2)
        have a4: "case fst y of
              Inr a \<Rightarrow>
                observed E ao tr (evs0 @ evs) = a
                \<and> (status a \<in> set FINISHED_STATUSES
                    \<or> evs0 @ evs \<noteq> [] \<and> MAX_WAIT \<le> time_r E (snd y) - start)
            | Inl (e, a) \<Rightarrow>
                observed E ao tr (evs0 @ evs) = a \<and> status a \<notin> set FINISHED_STATUSES
                \<and> (\<exists>pre. evs0 @ evs = pre @ [GetOrderById (id' a)]
                          \<and> get_order_by_id_r E (tr @ pre) (id' a) = Inl e)"
        proof (cases "fst y")
          case (Inr a)
          with res obs show ?thesis by auto
        next
          case (Inl ea)
          obtain e a where ea: "ea = (e, a)" by (cases ea)
          with Inl res obtain p where p: "observed E ao' tr2 evs = a"
            "status a \<notin> set FINISHED_STATUSES"
            "evs = p @ [GetOrderById (id' a)]"
            "get_order_by_id_r E (tr2 @ p) (id' a) = Inl e"
            by auto
          have "evs0 @ evs = (evs0 @ p) @ [GetOrderById (id' a)]" using p(3) by simp
          moreover have "get_order_by_id_r E (tr @ (evs0 @ p)) (id' a) = Inl e"
            using p(4) tr2 by simp
          ultimately have "\<exists>pre. evs0 @ evs = pre @ [GetOrderById (id' a)]
                          \<and> get_order_by_id_r E (tr @ pre) (id' a) = Inl e" by blast
          with Inl ea p(1,2) obs show ?thesis by simp
        qed
        from a1 a2 a3 a4 show ?thesis unfolding wait_result_ok_def by blast
      qed
    qed
  qed
  done

lemma fill_wait_returns_within:
  assumes adv: "clock_advances E d"
  shows "start + MAX_WAIT - time_r E tr \<le> real n * d
           \<Longrightarrow> \<exists>y. fill_wait E start ao tr = Some y"
proof (induction n arbitrary: ao tr)
  case 0
  show ?case
  proof (cases "status ao \<in> set FINISHED_STATUSES")
    case True
    then show ?thesis by (simp add: fill_wait_finished)
  next
    case False
    let ?tr1 = "if status ao \<noteq> NEW then tr @ [Sleep (1 / 4)] else tr"
    let ?tr2 = "?tr1 @ [GetOrderById (id' ao)]"
    have "time_r E tr \<le> time_r E ?tr1"
      using adv by (auto simp: clock_advances_def)
    moreover have "time_r E ?tr1 + d \<le> time_r E ?tr2"
      using adv unfolding clock_advances_def by blast
    moreover have "0 < d" using adv by (simp add: clock_advances_def)
    ultimately have "MAX_WAIT \<le> time_r E ?tr2 - start" using 0 by simp
    then show ?thesis
      by (subst fill_wait_poll[OF False refl]) (auto split: sum.splits)
  qed
next
  case (Suc n)
  show ?case
  proof (cases "status ao \<in> set FINISHED_STATUSES")
    case True
    then show ?thesis by (simp add: fill_wait_finished)
  next
    case False
    let ?tr1 = "if status ao \<noteq> NEW then tr @ [Sleep (1 / 4)] else tr"
    let ?tr2 = "?tr1 @ [GetOrderById (id' ao)]"
    have "time_r E tr \<le> time_r E ?tr1"
      using adv by (auto simp: clock_advances_def)
    moreover have "time_r E ?tr1 + d \<le> time_r E ?tr2"
      using adv unfolding clock_advances_def by blast
    ultimately have "start + MAX_WAIT - time_r E ?tr2 \<le> real n * d"
      using Suc.prems by (simp add: algebra_simps)
    from Suc.IH[OF this] have ih: "\<And>a. \<exists>y. fill_wait E start a ?tr2 = Some y" .
    show ?thesis
    proof (cases "get_order_by_id_r E ?tr1 (id' ao)")
      case (Inl e)
      then show ?thesis by (subst fill_wait_poll[OF False refl]) simp
    next
      case (Inr ao')
      from ih[of ao'] obtain y where "fill_wait E start ao' ?tr2 = Some y" by blast
      then show ?thesis using Inr by (subst fill_wait_poll[OF False refl]) simp
    qed
  qed
qed

lemma fill_wait_returns:
  assumes adv: "clock_advances E d"
  shows "\<exists>y. fill_wait E start ao tr = Some y"
proof -
  have d: "0 < d" using adv by (simp add: clock_advances_def)
  obtain n :: nat where "(start + MAX_WAIT - time_r E tr) / d \<le> real n"
    using real_arch_simple by blast
  then have "start + MAX_WAIT - time_r E tr \<le> real n * d"
    using d by (simp add: field_simps)
  from fill_wait_returns_within[OF adv this] show ?thesis .
qed

lemma fill_wait_trace:
  assumes "fill_wait E start ao tr = Some (r, tr')"
  shows "\<exists>evs. tr' = tr @ evs \<and> list_all is_poll evs"
  using fill_wait_sound[OF assms] by (auto simp: wait_result_ok_def)

lemma demo_env_simps:
  "get_account_r demo_env = (\<lambda>tr. Inr demo_account)"
  "get_clock_r demo_env = (\<lambda>tr. Inr \<lparr>is_open = True, hour = 10\<rparr>)"
  "get_open_position_r demo_env = (\<lambda>tr t. Inl (APIError ''position does not exist''))"
  "submit_order_r demo_env = (\<lambda>tr r. Inr (demo_order NEW))"
  "get_order_by_id_r demo_env = (\<lambda>tr i. Inr demo_filled)"
  "cancel_order_by_id_r demo_env = (\<lambda>tr i. None)"
  "close_position_r demo_env = (\<lambda>tr t p. Inr demo_filled)"
  "get_latest_quote_r demo_env = (\<lambda>tr t a. Inr \<lparr>bid_price = Num 100, ask_price = Num 101\<rparr>)"
  "time_r demo_env = (\<lambda>tr. real (length tr))"
  by (simp_all add: demo_env_def)

lemma stale_env_simps:
  "get_account_r stale_env = (\<lambda>tr. Inr demo_account)"
  "submit_order_r stale_env = (\<lambda>tr r. Inr (demo_order NEW))"
  "cancel_order_by_id_r stale_env = (\<lambda>tr i. None)"
  "get_order_by_id_r stale_env = (\<lambda>tr i. Inr (demo_order NEW))"
  "time_r stale_env = (\<lambda>tr. 10 * real (length tr))"
  by (simp_all add: stale_env_def demo_env_def)

lemma demo_order_simps:
  "id' (demo_order st) = ''o1''"
  "status (demo_order st) = st"
  "id' (filled_at p) = ''o1''"
  "status (filled_at p) = FILLED"
  "ao_symbol (filled_at p) = ''AAPL''"
  "filled_qty (filled_at p) = 50"
  "filled_avg_price (filled_at p) = Some p"
  "id' demo_filled = ''o1''"
  "status demo_filled = FILLED"
  by (simp_all add: demo_order_def filled_at_def demo_filled_def)



section \<open>Sizing and the entry request\<close>

lemmas float_eval = fl_def exponent_def ilog2.simps pow2_def round_half_even_def Let_def

lemma submitted_append: "submitted (xs @ ys) = submitted xs @ submitted ys"
  by (induction xs rule: submitted.induct) simp_all

lemma submitted_polls: "list_all is_poll evs \<Longrightarrow> submitted evs = []"
  by (induction evs rule: submitted.induct) simp_all

lemma submit_tail_trace:
  assumes "submit_tail E req w tr = Some (r, tr')"
  shows "\<exists>evs. tr' = tr @ SubmitOrder req # evs \<and> list_all is_poll evs"
proof (cases "submit_order_r E tr req")
  case (Inl e)
  with assms show ?thesis by (auto simp: submit_tail_def Let_def)
next
  case (Inr ao0)
  show ?thesis
  proof (cases w)
    case False
    with Inr assms show ?thesis by (auto simp: submit_tail_def Let_def)
  next
    case True
    with Inr assms obtain res where
      "fill_wait E (time_r E (tr @ [SubmitOrder req])) ao0 (tr @ [SubmitOrder req]) = Some (res, tr')"
      by (auto simp: submit_tail_def Let_def split: option.splits sum.splits prod.splits)
    from fill_wait_trace[OF this] show ?thesis by auto
  qed
qed

lemma submit_tail_now:
  "submit_tail E req False tr = Some (submit_order_r E tr req, tr @ [SubmitOrder req])"
  by (simp add: submit_tail_def Let_def split: sum.splits)

lemma handler_trace:
  assumes "handler E e b tr = (e', tr')"
  shows "\<exists>evs. tr' = tr @ evs
           \<and> (submitted evs = [] \<or> (\<exists>ao. b = Some ao \<and> submitted evs = [liquidation_request ao]))"
proof (cases b)
  case None
  with assms show ?thesis by (simp add: handler_def)
next
  case (Some ao)
  with assms show ?thesis
    by (auto simp: handler_def Let_def split: if_splits sum.splits option.splits)
qed

lemma try_body_trace:
  assumes "try_body E ord req tr = Some (res, tr')"
  shows "\<exists>evs. tr' = tr @ evs
           \<and> (evs = [] \<and> res = Continue req
                \<or> (\<exists>evs'. evs = SubmitOrder req # evs' \<and> submitted evs' = []))"
proof (cases "truthy (sl ord) \<or> truthy (tp ord) \<or> truthy (trailing_stop ord)")
  case False
  with assms show ?thesis by (simp add: try_body_def)
next
  case True
  show ?thesis
  proof (cases "submit_order_r E tr req")
    case (Inl e)
    with True assms show ?thesis by (auto simp: try_body_def)
  next
    case (Inr ao0)
    with True assms obtain wres tr2 where
      fw: "fill_wait E (time_r E (tr @ [SubmitOrder req])) ao0 (tr @ [SubmitOrder req]) = Some (wres, tr2)"
      and rest: "tr' = tr2 \<or> (\<exists>i. tr' = tr2 @ [CancelOrderById i])"
      by (auto simp: try_body_def Let_def split: option.splits sum.splits prod.splits if_splits)
    from fill_wait_trace[OF fw] obtain polls where
      polls: "tr2 = (tr @ [SubmitOrder req]) @ polls" "list_all is_poll polls" by blast
    from rest show ?thesis
    proof
      assume "tr' = tr2"
      with polls show ?thesis by (auto simp: submitted_polls)
    next
      assume "\<exists>i. tr' = tr2 @ [CancelOrderById i]"
      then obtain i where "tr' = tr @ SubmitOrder req # (polls @ [CancelOrderById i])"
        using polls by auto
      moreover have "submitted (polls @ [CancelOrderById i]) = []"
        using polls(2) by (simp add: submitted_append submitted_polls)
      ultimately show ?thesis by blast
    qed
  qed
qed

lemma size_order_cases:
  assumes "size_order acct ord = Inr (n, q)"
  shows "n = round2 (fmul (if leveraged ord \<or> asset_class ord = Crypto
                           then non_marginable_buying_power acct else buying_power acct)
                          (buying_power_pct ord))
       \<and> (\<exists>x. fdiv n (price ord) = Inr x \<and> pyfloor x = Inr q) \<and> \<not> fless n (Num 1)"
  using assms by (auto simp: size_order_def Let_def split: sum.splits if_splits)

lemma size_order_eq:
  assumes "n = round2 (fmul (if leveraged ord \<or> asset_class ord = Crypto
                           then non_marginable_buying_power acct else buying_power acct)
                          (buying_power_pct ord))"
    and "fdiv n (price ord) = Inr x" and "pyfloor x = Inr q"
  shows "size_order acct ord =
           (if fless n (Num 1)
            then Inl (Exception ''Notional value is less than $1. Cannot trade.'')
            else Inr (n, q))"
  using assms by (simp add: size_order_def Let_def)

lemma entry_request_qty:
  assumes "entry_request ord ext n q = Inr req"
    and "fdiv n (price ord) = Inr x" and "pyfloor x = Inr q"
  shows "qty req = of_int q"
  using assms
  by (auto simp: entry_request_def market_request_def bracket_request_def limit_request_def
      Let_def split: if_splits)

lemma entry_request_class:
  "entry_request ord ext n q = Inr req \<Longrightarrow> order_class req = None \<or> order_class req = Some BRACKET"
  by (auto simp: entry_request_def market_request_def bracket_request_def limit_request_def
      Let_def split: if_splits sum.splits)

lemma entry_request_bracket:
  "entry_request ord ext n q = Inr req \<Longrightarrow>
     order_class req = Some BRACKET \<longleftrightarrow> truthy (sl ord) \<and> truthy (tp ord) \<and> \<not> ext"
  by (auto simp: entry_request_def market_request_def bracket_request_def limit_request_def
      Let_def split: if_splits sum.splits)

lemma exit_request_class:
  "exit_request ord ao req = Inr rq \<Longrightarrow> rq = req \<or> order_class rq = None"
  by (auto simp: exit_request_def split: if_splits option.splits)

lemma try_body_continue:
  assumes "try_body E ord req tr = Some (Continue rq, tr')"
  shows "rq = req \<or> order_class rq = None"
proof (cases "truthy (sl ord) \<or> truthy (tp ord) \<or> truthy (trailing_stop ord)")
  case False
  with assms show ?thesis by (simp add: try_body_def)
next
  case True
  with assms obtain ao where "exit_request ord ao req = Inr rq"
    by (auto simp: try_body_def Let_def split: option.splits sum.splits prod.splits if_splits)
  then show ?thesis by (rule exit_request_class)
qed

lemma exec_trade_trace:
  assumes run: "exec_trade E ord ext w tr = Some (r, tr')"
    and acct: "get_account_r E tr = Inr acct"
    and size: "size_order acct ord = Inr (n, q)"
    and entry: "entry_request ord ext n q = Inr req"
  shows "\<exists>evs. tr' = tr @ GetAccount # SubmitOrder req # evs \<and> length (submitted evs) \<le> 1
           \<and> list_all (\<lambda>x. order_class x = None) (submitted evs)"
proof (cases "order_class req \<noteq> Some BRACKET \<and> action ord = Buy")
  case False
  with run acct size entry have "submit_tail E req w (tr @ [GetAccount]) = Some (r, tr')"
    by (auto simp: exec_trade_def Let_def)
  from submit_tail_trace[OF this] show ?thesis by (auto simp: submitted_polls)
next
  case True
  with entry_request_class[OF entry] have cls: "order_class req = None" by blast
  from True run acct size entry obtain res tr1 where
    tb: "try_body E ord req (tr @ [GetAccount]) = Some (res, tr1)"
    by (auto simp: exec_trade_def Let_def split: option.splits)
  from try_body_trace[OF tb] obtain evs where
    evs: "tr1 = (tr @ [GetAccount]) @ evs"
      "evs = [] \<and> res = Continue req \<or> (\<exists>evs'. evs = SubmitOrder req # evs' \<and> submitted evs' = [])"
    by blast
  have run': "(case res of
        Raise e bound \<Rightarrow> (case handler E e bound tr1 of (e', tr2) \<Rightarrow> Some (Inl e', tr2))
      | Return ao \<Rightarrow> Some (Inr ao, tr1)
      | Continue rq \<Rightarrow> submit_tail E rq w tr1) = Some (r, tr')"
    using run acct size entry True tb by (simp add: exec_trade_def Let_def)
  from evs(2) show ?thesis
  proof
    assume a: "evs = [] \<and> res = Continue req"
    with run' evs(1) have "submit_tail E req w (tr @ [GetAccount]) = Some (r, tr')" by simp
    from submit_tail_trace[OF this] show ?thesis by (auto simp: submitted_polls)
  next
    assume "\<exists>evs'. evs = SubmitOrder req # evs' \<and> submitted evs' = []"
    then obtain evs' where e': "evs = SubmitOrder req # evs'" "submitted evs' = []" by blast
    show ?thesis
    proof (cases res)
      case (Return ao)
      with run' evs(1) e' show ?thesis by auto
    next
      case (Continue rq)
      with tb try_body_continue cls have rq: "order_class rq = None" by blast
      from Continue run' have "submit_tail E rq w tr1 = Some (r, tr')" by simp
      from submit_tail_trace[OF this] obtain polls where
        "tr' = tr1 @ SubmitOrder rq # polls" "list_all is_poll polls" by blast
      then have "tr' = tr @ GetAccount # SubmitOrder req # (evs' @ SubmitOrder rq # polls)"
        "submitted (evs' @ SubmitOrder rq # polls) = [rq]"
        using evs(1) e' by (simp_all add: submitted_append submitted_polls)
      with rq show ?thesis by fastforce
    next
      case (Raise e bound)
      with run' obtain e' where h: "handler E e bound tr1 = (e', tr')"
        by (auto split: prod.splits)
      from handler_trace[OF h] obtain hs where
        hs: "tr' = tr1 @ hs" "length (submitted hs) \<le> 1"
          "list_all (\<lambda>x. order_class x = None) (submitted hs)"
        by (auto simp: liquidation_request_def)
      then have "tr' = tr @ GetAccount # SubmitOrder req # (evs' @ hs)"
        "length (submitted (evs' @ hs)) \<le> 1"
        "list_all (\<lambda>x. order_class x = None) (submitted (evs' @ hs))"
        using evs(1) e' by (simp_all add: submitted_append)
      then show ?thesis by blast
    qed
  qed
qed

lemma exec_trade_plain:
  assumes acct: "get_account_r E tr = Inr acct"
    and size: "size_order acct ord = Inr (n, q)"
    and entry: "entry_request ord ext n q = Inr req"
    and plain: "order_class req = Some BRACKET \<or> action ord \<noteq> Buy
                \<or> \<not> (truthy (sl ord) \<or> truthy (tp ord) \<or> truthy (trailing_stop ord))"
  shows "exec_trade E ord ext w tr = submit_tail E req w (tr @ [GetAccount])"
  using assms by (auto simp: exec_trade_def try_body_def Let_def)

section \<open>The floats of the examples\<close>

text \<open>
  The arithmetic of the examples is evaluated once, here; the operations are kept folded
  elsewhere.
\<close>

declare fadd.simps [simp del] fmul.simps [simp del] fdiv.simps [simp del] round2.simps [simp del]

lemmas float_ops = fadd.simps fsub_def fmul.simps fdiv.simps round2.simps

lemma literals:
  "fl (1 / 100) = Num (5764607523034235 / 2 ^ 59)"
  "fl (1 / 50) = Num (5764607523034235 / 2 ^ 58)"
  "fl (3 / 100) = Num (1080863910568919 / 2 ^ 55)"
  "fl (1 / 20) = Num (3602879701896397 / 2 ^ 56)"
  "fl (7 / 100) = Num (1261007895663739 / 2 ^ 54)"
  "fl (1 / 100000) = Num (5902958103587057 / 2 ^ 69)"
  "fl (11 / 10) = Num (2476979795053773 / 2 ^ 51)"
  "fl (103 / 10) = Num (2899192260119757 / 2 ^ 48)"
  "fl (199 / 100) = Num (8962163258467287 / 2 ^ 52)"
  "fl (1999 / 1000) = Num (4501347827556811 / 2 ^ 51)"
  "fl (99 / 100) = Num (4458563631096791 / 2 ^ 52)"
  "fl (1 / 10) = Num (3602879701896397 / 2 ^ 55)"
  "fl (9547 / 100) = Num (3359052003320791 / 2 ^ 45)"
  "fl (10553 / 100) = Num (3713006786534441 / 2 ^ 45)"
  "fl (5219 / 100) = Num (918136189658071 / 2 ^ 44)"
  by (simp_all add: float_eval)

lemma sizing_values:
  "round2 (fmul (Num 10000) (fl (1 / 100000))) = fl (1 / 10)"
  "round2 (fmul (fl (199 / 100)) (Num (1 / 2))) = fl (99 / 100)"
  "round2 (fmul (fl (1999 / 1000)) (Num (1 / 2))) = Num 1"
  "round2 (fmul (Num 66) (Num (1 / 2))) = Num 33"
  "round2 (fmul (Num 10000) (Num (1 / 2))) = Num 5000"
  by (simp_all add: literals float_ops) (simp_all add: float_eval float_ops)

lemma quotient_values:
  "fdiv (fl (99 / 100)) (Num 100) = Inr (Num (1426740361950973 / 2 ^ 57))"
  "fdiv (Num 1) (Num 100) = Inr (fl (1 / 100))"
  "fdiv (Num 33) (fl (11 / 10)) = Inr (Num (8444249301319679 / 2 ^ 48))"
  "fdiv (Num 5000) (Num 100) = Inr (Num 50)"
  "fdiv (Num 5000) (Num 10000) = Inr (Num (1 / 2))"
  "fdiv (Num 5000) (Num (201 / 2)) = Inr (Num (1750466273076219 / 2 ^ 45))"
  by (simp_all add: literals float_ops) (simp_all add: float_eval float_ops)


lemma funded_env_simps:
  "get_account_r (funded_env bp) = (\<lambda>tr. Inr (demo_account\<lparr>buying_power := bp\<rparr>))"
  "submit_order_r (funded_env bp) = (\<lambda>tr r. Inr (demo_order NEW))"
  by (simp_all add: funded_env_def demo_env_def)

lemma demo_signal_simps:
  "ticker demo_signal = ''AAPL''"
  "action demo_signal = Buy"
  "market_position demo_signal = Long"
  "price demo_signal = Num 100"
  "buying_power_pct demo_signal = Num (1 / 2)"
  "leveraged demo_signal = False"
  "asset_class demo_signal = Stock"
  "sl demo_signal = None"
  "tp demo_signal = None"
  "trailing_stop demo_signal = None"
  "max_slippage demo_signal = Some (Num 0)"
  "high demo_signal = None"
  "nickname demo_signal = Some ''acct''"
  "order_id demo_signal = None"
  by (simp_all add: demo_signal_def)

lemma demo_account_simps:
  "buying_power demo_account = Num 10000"
  "non_marginable_buying_power demo_account = Num 5000"
  "equity demo_account = 30000"
  "daytrade_count demo_account = 0"
  by (simp_all add: demo_account_def)

text \<open>
  Claim C7 (sizing) as stated, for every signal, fails at a reference price of zero: with a
  buying power of 10000 and a percentage of 0.00001 the notional is 0.1, below 1.00, and
  the trade ends with the \<open>ZeroDivisionError\<close> of line 99, not with the notional
  exception of line 103.
\<close>

theorem sizing_counterexample:
  "get_account_r demo_env [] = Inr demo_account
   \<and> round2 (fmul (buying_power demo_account) (fl (1 / 100000))) = fl (1 / 10)
   \<and> fless (fl (1 / 10)) (Num 1)
   \<and> exec_trade demo_env (demo_signal\<lparr>price := Num 0, buying_power_pct := fl (1 / 100000)\<rparr>)
        False False [] = Some (Inl ZeroDivisionError, [GetAccount])"
proof -
  have "size_order demo_account (demo_signal\<lparr>price := Num 0, buying_power_pct := fl (1 / 100000)\<rparr>)
      = Inl ZeroDivisionError"
    by (simp add: size_order_def demo_signal_simps demo_account_simps sizing_values
        fdiv.simps Let_def)
  moreover have "fless (fl (1 / 10)) (Num 1)" by (simp add: literals)
  ultimately show ?thesis
    by (simp add: exec_trade_def demo_env_simps demo_account_simps sizing_values)
qed

text \<open>
  Claim C7, amended. Let the account be read, let \<open>notional\<close> be
  \<open>round(buying_power_source * buying_power_pct, 2)\<close>, the source being the non-marginable
  buying power for a leveraged or crypto signal and the standard buying power otherwise, and
  let the quotient \<open>notional / price\<close> and its floor \<open>q\<close> be defined (the price is not
  zero, the quotient neither infinite nor a NaN). Then a notional below 1.00 ends the
  trade with the notional exception after the account call alone; a notional not below
  1.00 with a quantity below 1 and an exit field set ends it with the quantity exception,
  again with no order submitted; and whenever the trade submits anything, the first request
  (the entry) carries the quantity \<open>q\<close>.
\<close>

theorem sizing:
  assumes acct: "get_account_r E tr = Inr acct"
    and n: "notional =
              round2 (fmul (if leveraged ord \<or> asset_class ord = Crypto
                            then non_marginable_buying_power acct else buying_power acct)
                           (buying_power_pct ord))"
    and x: "fdiv notional (price ord) = Inr x"
    and q: "pyfloor x = Inr q"
  shows "(fless notional (Num 1) \<longrightarrow>
            exec_trade E ord ext w tr =
              Some (Inl (Exception ''Notional value is less than $1. Cannot trade.''),
                    tr @ [GetAccount]))
       \<and> (\<not> fless notional (Num 1) \<and> q < 1
            \<and> (truthy (sl ord) \<or> truthy (tp ord) \<or> truthy (trailing_stop ord)) \<longrightarrow>
            exec_trade E ord ext w tr = Some (Inl qty_error, tr @ [GetAccount]))
       \<and> (\<forall>r tr'. exec_trade E ord ext w tr = Some (r, tr') \<longrightarrow>
            (\<exists>evs. tr' = tr @ GetAccount # evs
                   \<and> (submitted evs = [] \<or> qty (hd (submitted evs)) = of_int q)))"
proof (intro conjI impI allI)
  note size = size_order_eq[OF n x q]
  {
    assume "fless notional (Num 1)"
    then show "exec_trade E ord ext w tr =
        Some (Inl (Exception ''Notional value is less than $1. Cannot trade.''), tr @ [GetAccount])"
      using acct size by (simp add: exec_trade_def Let_def)
  next
    assume a: "\<not> fless notional (Num 1) \<and> q < 1
              \<and> (truthy (sl ord) \<or> truthy (tp ord) \<or> truthy (trailing_stop ord))"
    then have "size_order acct ord = Inr (notional, q)"
      using size by simp
    moreover have "entry_request ord ext notional q = Inl qty_error"
      using a by (auto simp: entry_request_def)
    ultimately show "exec_trade E ord ext w tr = Some (Inl qty_error, tr @ [GetAccount])"
      using acct by (simp add: exec_trade_def Let_def)
  next
    fix r tr'
    assume run: "exec_trade E ord ext w tr = Some (r, tr')"
    show "\<exists>evs. tr' = tr @ GetAccount # evs
                     \<and> (submitted evs = [] \<or> qty (hd (submitted evs)) = of_int q)"
    proof (cases "fless notional (Num 1)")
      case True
      with run acct size have "tr' = tr @ [GetAccount]" by (simp add: exec_trade_def Let_def)
      then show ?thesis by simp
    next
      case False
      with size have size': "size_order acct ord = Inr (notional, q)" by simp
      show ?thesis
      proof (cases "entry_request ord ext notional q")
        case (Inl e)
        with run acct size' have "tr' = tr @ [GetAccount]" by (simp add: exec_trade_def Let_def)
        then show ?thesis by simp
      next
        case entry: (Inr req)
        from exec_trade_trace[OF run acct size' entry] obtain evs where
          "tr' = tr @ GetAccount # SubmitOrder req # evs" by blast
        moreover have "qty req = of_int q" using entry x q by (rule entry_request_qty)
        ultimately show ?thesis by simp
      qed
    qed
  }
qed

lemma cheap_run:
  "exec_trade (funded_env (Num 66)) (demo_signal\<lparr>price := fl (11 / 10)\<rparr>) False False [] =
     Some (Inr (demo_order NEW),
           [GetAccount, SubmitOrder (market_request (demo_signal\<lparr>price := fl (11 / 10)\<rparr>) 29)])"
proof -
  have "size_order (demo_account\<lparr>buying_power := Num 66\<rparr>) (demo_signal\<lparr>price := fl (11 / 10)\<rparr>)
      = Inr (Num 33, 29)"
    by (simp add: size_order_def demo_signal_simps sizing_values quotient_values)
  moreover have "entry_request (demo_signal\<lparr>price := fl (11 / 10)\<rparr>) False (Num 33) 29 =
      Inr (market_request (demo_signal\<lparr>price := fl (11 / 10)\<rparr>) 29)"
    by (simp add: entry_request_def demo_signal_simps)
  ultimately show ?thesis
    by (simp add: exec_trade_def try_body_def funded_env_simps demo_signal_simps
        market_request_def submit_tail_now)
qed

theorem sizing_witness:
  "exec_trade (funded_env (fl (199 / 100))) demo_signal False False [] =
     Some (Inl (Exception ''Notional value is less than $1. Cannot trade.''), [GetAccount])
   \<and> exec_trade (funded_env (fl (1999 / 1000))) (demo_signal\<lparr>sl := Some (fl (1 / 20))\<rparr>)
        False False [] = Some (Inl qty_error, [GetAccount])
   \<and> exec_trade (funded_env (Num 66)) (demo_signal\<lparr>price := fl (11 / 10)\<rparr>) False False [] =
       Some (Inr (demo_order NEW),
             [GetAccount, SubmitOrder (market_request (demo_signal\<lparr>price := fl (11 / 10)\<rparr>) 29)])
   \<and> (\<exists>evs. [GetAccount, SubmitOrder (market_request (demo_signal\<lparr>price := fl (11 / 10)\<rparr>) 29)]
               = [] @ GetAccount # evs
             \<and> (submitted evs = [] \<or> qty (hd (submitted evs)) = of_int 29))"
proof -
  let ?stop = "demo_signal\<lparr>sl := Some (fl (1 / 20))\<rparr>"
  let ?cheap = "demo_signal\<lparr>price := fl (11 / 10)\<rparr>"
  have acct: "get_account_r (funded_env bp) [] = Inr (demo_account\<lparr>buying_power := bp\<rparr>)" for bp
    by (simp add: funded_env_simps)
  have n1: "fl (99 / 100) =
      round2 (fmul (if leveraged demo_signal \<or> asset_class demo_signal = Crypto
                    then non_marginable_buying_power (demo_account\<lparr>buying_power := fl (199 / 100)\<rparr>)
                    else buying_power (demo_account\<lparr>buying_power := fl (199 / 100)\<rparr>))
                   (buying_power_pct demo_signal))"
    by (simp add: demo_signal_simps sizing_values)
  have n2: "Num 1 =
      round2 (fmul (if leveraged ?stop \<or> asset_class ?stop = Crypto
                    then non_marginable_buying_power (demo_account\<lparr>buying_power := fl (1999 / 1000)\<rparr>)
                    else buying_power (demo_account\<lparr>buying_power := fl (1999 / 1000)\<rparr>))
                   (buying_power_pct ?stop))"
    by (simp add: demo_signal_simps sizing_values)
  have n3: "Num 33 =
      round2 (fmul (if leveraged ?cheap \<or> asset_class ?cheap = Crypto
                    then non_marginable_buying_power (demo_account\<lparr>buying_power := Num 66\<rparr>)
                    else buying_power (demo_account\<lparr>buying_power := Num 66\<rparr>))
                   (buying_power_pct ?cheap))"
    by (simp add: demo_signal_simps sizing_values)
  have x1: "fdiv (fl (99 / 100)) (price demo_signal) = Inr (Num (1426740361950973 / 2 ^ 57))"
    and x2: "fdiv (Num 1) (price ?stop) = Inr (fl (1 / 100))"
    and x3: "fdiv (Num 33) (price ?cheap) = Inr (Num (8444249301319679 / 2 ^ 48))"
    by (simp_all add: demo_signal_simps quotient_values)
  have q1: "pyfloor (Num (1426740361950973 / 2 ^ 57)) = Inr 0"
    and q2: "pyfloor (fl (1 / 100)) = Inr 0"
    and q3: "pyfloor (Num (8444249301319679 / 2 ^ 48)) = Inr 29"
    by (simp_all add: literals)
  have c1: "fless (fl (99 / 100)) (Num 1)" by (simp add: literals)
  have c2: "\<not> fless (Num 1) (Num 1) \<and> (0 :: int) < 1
            \<and> (truthy (sl ?stop) \<or> truthy (tp ?stop) \<or> truthy (trailing_stop ?stop))"
    by (simp add: literals)
  have "exec_trade (funded_env (fl (199 / 100))) demo_signal False False [] =
     Some (Inl (Exception ''Notional value is less than $1. Cannot trade.''), [] @ [GetAccount])"
    using sizing[OF acct n1 x1 q1, of False False] c1 by blast
  moreover have "exec_trade (funded_env (fl (1999 / 1000))) ?stop False False [] =
     Some (Inl qty_error, [] @ [GetAccount])"
    using sizing[OF acct n2 x2 q2, of False False] c2 by blast
  moreover have "\<exists>evs. [GetAccount, SubmitOrder (market_request ?cheap 29)] = [] @ GetAccount # evs
               \<and> (submitted evs = [] \<or> qty (hd (submitted evs)) = of_int 29)"
    using sizing[OF acct n3 x3 q3, of False False] cheap_run by blast
  ultimately show ?thesis using cheap_run by simp
qed

section \<open>The bracket order\<close>

lemma bracket_values:
  "round2 (fmul (Num (201 / 2)) (fsub (Num 1) (fl (1 / 20)))) = fl (9547 / 100)"
  "round2 (fmul (Num (201 / 2)) (fadd (Num 1) (fl (1 / 20)))) = fl (10553 / 100)"
  by (simp_all add: literals float_ops) (simp_all add: float_eval float_ops)

text \<open>
  Claim C8 (bracket construction). The entry request that \<open>exec_trade\<close> builds is a
  bracket order exactly when both \<open>sl\<close> and \<open>tp\<close> are set and it is not extended hours.
  In that case, once the sizing has passed with a quantity of at least one share, the
  request is the share-quantity market order with the stop-loss at
  \<open>round(price * (1 - sl), 2)\<close> and the take-profit at \<open>round(price * (1 + tp), 2)\<close>,
  in Python's float arithmetic; it is the one and only order submitted (no exit order
  follows it), and the broker's answer to it is the result. No run of \<open>exec_trade\<close>
  submits a bracket order in any other case.
\<close>

theorem bracket_construction:
  "(\<forall>n k req. entry_request ord ext n k = Inr req \<longrightarrow>
      (order_class req = Some BRACKET \<longleftrightarrow> truthy (sl ord) \<and> truthy (tp ord) \<and> \<not> ext))
   \<and> (get_account_r E tr = Inr acct \<and> size_order acct ord = Inr (notional, q)
        \<and> truthy (sl ord) \<and> truthy (tp ord) \<and> \<not> ext \<and> 1 \<le> q \<longrightarrow>
          entry_request ord ext notional q = Inr (bracket_request ord q)
          \<and> exec_trade E ord ext False tr =
               Some (submit_order_r E (tr @ [GetAccount]) (bracket_request ord q),
                     tr @ [GetAccount, SubmitOrder (bracket_request ord q)])
          \<and> (\<forall>r tr'. exec_trade E ord ext w tr = Some (r, tr') \<longrightarrow>
                submitted (drop (length tr) tr') = [bracket_request ord q])
          \<and> request_type (bracket_request ord q) = MarketOrder
          \<and> qty (bracket_request ord q) = of_int q
          \<and> stop_loss (bracket_request ord q) =
               Some (round2 (fmul (price ord) (fsub (Num 1) (the (sl ord)))))
          \<and> take_profit (bracket_request ord q) =
               Some (round2 (fmul (price ord) (fadd (Num 1) (the (tp ord)))))
          \<and> order_class (bracket_request ord q) = Some BRACKET)
   \<and> (\<forall>r tr'. exec_trade E ord ext w tr = Some (r, tr')
          \<and> Some BRACKET \<in> order_class ` set (submitted (drop (length tr) tr')) \<longrightarrow>
        truthy (sl ord) \<and> truthy (tp ord) \<and> \<not> ext)"
proof (intro conjI impI allI)
  fix n k req
  assume "entry_request ord ext n k = Inr req"
  then show "order_class req = Some BRACKET \<longleftrightarrow> truthy (sl ord) \<and> truthy (tp ord) \<and> \<not> ext"
    by (rule entry_request_bracket)
next
  assume a: "get_account_r E tr = Inr acct \<and> size_order acct ord = Inr (notional, q)
        \<and> truthy (sl ord) \<and> truthy (tp ord) \<and> \<not> ext \<and> 1 \<le> q"
  then have acct: "get_account_r E tr = Inr acct"
    and size: "size_order acct ord = Inr (notional, q)" by blast+
  from a show entry: "entry_request ord ext notional q = Inr (bracket_request ord q)"
    by (auto simp: entry_request_def)
  have cls: "order_class (bracket_request ord q) = Some BRACKET \<or> action ord \<noteq> Buy
                \<or> \<not> (truthy (sl ord) \<or> truthy (tp ord) \<or> truthy (trailing_stop ord))"
    by (simp add: bracket_request_def)
  note run = exec_trade_plain[OF acct size entry cls]
  show "exec_trade E ord ext False tr =
                 Some (submit_order_r E (tr @ [GetAccount]) (bracket_request ord q),
                       tr @ [GetAccount, SubmitOrder (bracket_request ord q)])"
    by (simp add: run submit_tail_now)
  show "submitted (drop (length tr) tr') = [bracket_request ord q]"
    if "exec_trade E ord ext w tr = Some (r, tr')" for r tr'
  proof -
    from that have "submit_tail E (bracket_request ord q) w (tr @ [GetAccount]) = Some (r, tr')"
      by (simp add: run)
    from submit_tail_trace[OF this] obtain polls where
      "tr' = (tr @ [GetAccount]) @ SubmitOrder (bracket_request ord q) # polls"
      "list_all is_poll polls" by blast
    then show ?thesis by (simp add: submitted_polls)
  qed
next
  fix r tr'
  assume a: "exec_trade E ord ext w tr = Some (r, tr')
              \<and> Some BRACKET \<in> order_class ` set (submitted (drop (length tr) tr'))"
  then have run: "exec_trade E ord ext w tr = Some (r, tr')"
    and br: "Some BRACKET \<in> order_class ` set (submitted (drop (length tr) tr'))"
    by blast+
  have "\<exists>n k req evs. entry_request ord ext n k = Inr req
          \<and> tr' = tr @ GetAccount # SubmitOrder req # evs
          \<and> list_all (\<lambda>x. order_class x = None) (submitted evs)"
  proof (cases "get_account_r E tr")
    case (Inl e)
    with run have "tr' = tr @ [GetAccount]" by (simp add: exec_trade_def Let_def)
    with br show ?thesis by simp
  next
    case acct: (Inr a)
    show ?thesis
    proof (cases "size_order a ord")
      case (Inl e)
      with run acct have "tr' = tr @ [GetAccount]" by (simp add: exec_trade_def Let_def)
      with br show ?thesis by simp
    next
      case (Inr nq)
      then obtain n k where size: "size_order a ord = Inr (n, k)" by (cases nq) simp
      show ?thesis
      proof (cases "entry_request ord ext n k")
        case (Inl e)
        with run acct size have "tr' = tr @ [GetAccount]" by (simp add: exec_trade_def Let_def)
        with br show ?thesis by simp
      next
        case entry: (Inr req)
        from exec_trade_trace[OF run acct size entry] entry show ?thesis by blast
      qed
    qed
  qed
  then obtain n k req evs where entry: "entry_request ord ext n k = Inr req"
    and tr': "tr' = tr @ GetAccount # SubmitOrder req # evs"
    and rest: "list_all (\<lambda>x. order_class x = None) (submitted evs)"
    by blast
  from br tr' rest have "order_class req = Some BRACKET"
    by (auto simp: list_all_iff)
  with entry_request_bracket[OF entry] have "truthy (sl ord) \<and> truthy (tp ord) \<and> \<not> ext"
    by blast
  then show "truthy (sl ord)" and "truthy (tp ord)" and "\<not> ext" by blast+
qed (simp_all add: bracket_request_def)

theorem bracket_construction_witness:
  "entry_request (demo_signal\<lparr>price := Num (201 / 2), sl := Some (fl (1 / 20)),
                              tp := Some (fl (1 / 20))\<rparr>) False (Num 5000) 49 =
      Inr (bracket_request (demo_signal\<lparr>price := Num (201 / 2), sl := Some (fl (1 / 20)),
                                         tp := Some (fl (1 / 20))\<rparr>) 49)
   \<and> exec_trade demo_env (demo_signal\<lparr>price := Num (201 / 2), sl := Some (fl (1 / 20)),
                                       tp := Some (fl (1 / 20))\<rparr>) False False [] =
       Some (Inr (demo_order NEW),
             [GetAccount,
              SubmitOrder (bracket_request (demo_signal\<lparr>price := Num (201 / 2),
                 sl := Some (fl (1 / 20)), tp := Some (fl (1 / 20))\<rparr>) 49)])
   \<and> qty (bracket_request (demo_signal\<lparr>price := Num (201 / 2), sl := Some (fl (1 / 20)),
                                         tp := Some (fl (1 / 20))\<rparr>) 49) = 49
   \<and> stop_loss (bracket_request (demo_signal\<lparr>price := Num (201 / 2), sl := Some (fl (1 / 20)),
                                         tp := Some (fl (1 / 20))\<rparr>) 49) = Some (fl (9547 / 100))
   \<and> take_profit (bracket_request (demo_signal\<lparr>price := Num (201 / 2), sl := Some (fl (1 / 20)),
                                         tp := Some (fl (1 / 20))\<rparr>) 49) = Some (fl (10553 / 100))
   \<and> order_class (bracket_request (demo_signal\<lparr>price := Num (201 / 2), sl := Some (fl (1 / 20)),
                                         tp := Some (fl (1 / 20))\<rparr>) 49) = Some BRACKET
   \<and> order_class (limit_request (demo_signal\<lparr>price := Num (201 / 2), sl := Some (fl (1 / 20)),
                                         tp := Some (fl (1 / 20))\<rparr>) 49) \<noteq> Some BRACKET
   \<and> order_class (market_request (demo_signal\<lparr>sl := Some (fl (1 / 20))\<rparr>) 50) \<noteq> Some BRACKET"
proof -
  let ?o = "demo_signal\<lparr>price := Num (201 / 2), sl := Some (fl (1 / 20)), tp := Some (fl (1 / 20))\<rparr>"
  let ?s = "demo_signal\<lparr>sl := Some (fl (1 / 20))\<rparr>"
  have acct: "get_account_r demo_env [] = Inr demo_account" by (simp add: demo_env_simps)
  have size: "size_order demo_account ?o = Inr (Num 5000, 49)"
    by (simp add: size_order_def demo_signal_simps demo_account_simps sizing_values
        quotient_values)
  have c: "get_account_r demo_env [] = Inr demo_account
      \<and> size_order demo_account ?o = Inr (Num 5000, 49)
      \<and> truthy (sl ?o) \<and> truthy (tp ?o) \<and> \<not> False \<and> 1 \<le> (49 :: int)"
    using acct size by (simp add: literals)
  note t = bracket_construction[of ?o False demo_env "[]" demo_account "Num 5000" 49 False]
  have e: "entry_request ?o False (Num 5000) 49 = Inr (bracket_request ?o 49)"
    using t c by blast
  have "exec_trade demo_env ?o False False [] =
      Some (submit_order_r demo_env ([] @ [GetAccount]) (bracket_request ?o 49),
            [] @ [GetAccount, SubmitOrder (bracket_request ?o 49)])"
    using t c by blast
  then have r: "exec_trade demo_env ?o False False [] =
      Some (Inr (demo_order NEW), [GetAccount, SubmitOrder (bracket_request ?o 49)])"
    by (simp add: demo_env_simps)
  have "qty (bracket_request ?o 49) = of_int 49"
    "stop_loss (bracket_request ?o 49) = Some (round2 (fmul (price ?o) (fsub (Num 1) (the (sl ?o)))))"
    "take_profit (bracket_request ?o 49) = Some (round2 (fmul (price ?o) (fadd (Num 1) (the (tp ?o)))))"
    "order_class (bracket_request ?o 49) = Some BRACKET"
    using t c by blast+
  then have v: "qty (bracket_request ?o 49) = 49"
    "stop_loss (bracket_request ?o 49) = Some (fl (9547 / 100))"
    "take_profit (bracket_request ?o 49) = Some (fl (10553 / 100))"
    "order_class (bracket_request ?o 49) = Some BRACKET"
    by (simp_all add: bracket_values)
  have e1: "entry_request ?o True (Num 5000) 49 = Inr (limit_request ?o 49)"
    by (simp add: entry_request_def demo_signal_simps literals quotient_values)
  have "order_class (limit_request ?o 49) = Some BRACKET
          \<longleftrightarrow> truthy (sl ?o) \<and> truthy (tp ?o) \<and> \<not> True"
    using bracket_construction[of ?o True] e1 by blast
  then have l: "order_class (limit_request ?o 49) \<noteq> Some BRACKET" by simp
  have e0: "entry_request ?s False (Num 5000) 50 = Inr (market_request ?s 50)"
    by (simp add: entry_request_def demo_signal_simps literals)
  have "order_class (market_request ?s 50) = Some BRACKET
          \<longleftrightarrow> truthy (sl ?s) \<and> truthy (tp ?s) \<and> \<not> False"
    using bracket_construction[of ?s False] e0 by blast
  then have m: "order_class (market_request ?s 50) \<noteq> Some BRACKET"
    by (simp add: demo_signal_simps)
  from e r v l m show ?thesis by blast
qed

section \<open>The default market order\<close>

lemma default_values:
  "round2 (fmul (Num 5000) (Num (1 / 2))) = Num 2500"
  "fdiv (Num 2500) (Num 10000) = Inr (Num (1 / 4))"
  by (simp_all add: float_ops) (simp_all add: float_eval float_ops)

text \<open>
  Claim C10 as stated fails in extended hours: for a stock signal with no exit field, a
  notional of 5000 and a price of 10000, the extended-hours branch (lines 153-165) applies
  its own quantity check, raises, and no order is submitted.
\<close>

theorem default_market_order_counterexample:
  "sl (demo_signal\<lparr>price := Num 10000\<rparr>) = None
   \<and> tp (demo_signal\<lparr>price := Num 10000\<rparr>) = None
   \<and> trailing_stop (demo_signal\<lparr>price := Num 10000\<rparr>) = None
   \<and> size_order demo_account (demo_signal\<lparr>price := Num 10000\<rparr>) = Inr (Num 5000, 0)
   \<and> exec_trade demo_env (demo_signal\<lparr>price := Num 10000\<rparr>) True False [] =
       Some (Inl qty_error, [GetAccount])"
proof -
  have size: "size_order demo_account (demo_signal\<lparr>price := Num 10000\<rparr>) = Inr (Num 5000, 0)"
    by (simp add: size_order_def demo_signal_simps demo_account_simps sizing_values
        quotient_values)
  have "entry_request (demo_signal\<lparr>price := Num 10000\<rparr>) True (Num 5000) 0 = Inl qty_error"
    by (simp add: entry_request_def demo_signal_simps quotient_values)
  with size show ?thesis
    by (simp add: exec_trade_def demo_env_simps demo_signal_simps)
qed

text \<open>
  Claim C10, amended. When none of \<open>sl\<close>, \<open>tp\<close>, \<open>trailing_stop\<close> is set, the notional
  is not below 1.00, the quotient \<open>notional / price\<close> and its floor are defined (the price
  is not zero, the quotient neither infinite nor a NaN) and the entry is not replaced by
  the extended-hours limit order (it is not extended hours, or the asset is crypto), the
  default market order is the one order submitted, with \<open>qty = floor(notional / price)\<close>
  whatever that quantity is: no check of the quantity is applied. So for some input with a
  price above the notional (a buying power of 10000, a percentage of 0.5 and a price of
  10000) a market order of quantity zero goes to the broker.
\<close>

theorem default_market_order:
  assumes acct: "get_account_r E tr = Inr acct"
    and n: "notional =
              round2 (fmul (if leveraged ord \<or> asset_class ord = Crypto
                            then non_marginable_buying_power acct else buying_power acct)
                           (buying_power_pct ord))"
    and x: "fdiv notional (price ord) = Inr x"
    and q: "pyfloor x = Inr q"
    and none: "\<not> truthy (sl ord)" "\<not> truthy (tp ord)" "\<not> truthy (trailing_stop ord)"
    and enough: "\<not> fless notional (Num 1)"
    and regular: "\<not> ext \<or> asset_class ord = Crypto"
  shows "exec_trade E ord ext False tr =
           Some (submit_order_r E (tr @ [GetAccount]) (market_request ord q),
                 tr @ [GetAccount, SubmitOrder (market_request ord q)])
       \<and> (\<forall>r tr'. exec_trade E ord ext w tr = Some (r, tr') \<longrightarrow>
             submitted (drop (length tr) tr') = [market_request ord q])
       \<and> request_type (market_request ord q) = MarketOrder
       \<and> qty (market_request ord q) = of_int q"
proof (intro conjI impI allI)
  have size: "size_order acct ord = Inr (notional, q)"
    using size_order_eq[OF n x q] enough by simp
  have entry: "entry_request ord ext notional q = Inr (market_request ord q)"
    using none regular by (auto simp: entry_request_def)
  have cls: "order_class (market_request ord q) = Some BRACKET \<or> action ord \<noteq> Buy
                \<or> \<not> (truthy (sl ord) \<or> truthy (tp ord) \<or> truthy (trailing_stop ord))"
    using none by simp
  note run = exec_trade_plain[OF acct size entry cls]
  show "exec_trade E ord ext False tr =
           Some (submit_order_r E (tr @ [GetAccount]) (market_request ord q),
                 tr @ [GetAccount, SubmitOrder (market_request ord q)])"
    by (simp add: run submit_tail_now)
  show "submitted (drop (length tr) tr') = [market_request ord q]"
    if "exec_trade E ord ext w tr = Some (r, tr')" for r tr'
  proof -
    from that have "submit_tail E (market_request ord q) w (tr @ [GetAccount]) = Some (r, tr')"
      by (simp add: run)
    from submit_tail_trace[OF this] obtain polls where
      "tr' = (tr @ [GetAccount]) @ SubmitOrder (market_request ord q) # polls"
      "list_all is_poll polls" by blast
    then show ?thesis by (simp add: submitted_polls)
  qed
  show "request_type (market_request ord q) = MarketOrder"
    by (simp add: market_request_def)
  show "qty (market_request ord q) = of_int q"
    by (simp add: market_request_def)
qed

theorem default_market_order_witness:
  "fless (Num 5000) (price (demo_signal\<lparr>price := Num 10000\<rparr>))
   \<and> exec_trade demo_env (demo_signal\<lparr>price := Num 10000\<rparr>) False False [] =
       Some (Inr (demo_order NEW),
             [GetAccount, SubmitOrder (market_request (demo_signal\<lparr>price := Num 10000\<rparr>) 0)])
   \<and> request_type (market_request (demo_signal\<lparr>price := Num 10000\<rparr>) 0) = MarketOrder
   \<and> qty (market_request (demo_signal\<lparr>price := Num 10000\<rparr>) 0) = 0
   \<and> exec_trade demo_env (demo_signal\<lparr>price := Num 10000, asset_class := Crypto\<rparr>)
        True False [] =
       Some (Inr (demo_order NEW),
             [GetAccount,
              SubmitOrder (market_request (demo_signal\<lparr>price := Num 10000,
                                                         asset_class := Crypto\<rparr>) 0)])"
proof -
  let ?o = "demo_signal\<lparr>price := Num 10000\<rparr>"
  let ?c = "demo_signal\<lparr>price := Num 10000, asset_class := Crypto\<rparr>"
  have acct: "get_account_r demo_env [] = Inr demo_account" by (simp add: demo_env_simps)
  have n: "Num 5000 = round2 (fmul (if leveraged ?o \<or> asset_class ?o = Crypto
                       then non_marginable_buying_power demo_account
                       else buying_power demo_account) (buying_power_pct ?o))"
    and nc: "Num 2500 = round2 (fmul (if leveraged ?c \<or> asset_class ?c = Crypto
                       then non_marginable_buying_power demo_account
                       else buying_power demo_account) (buying_power_pct ?c))"
    by (simp_all add: demo_account_simps demo_signal_simps sizing_values default_values)
  have x: "fdiv (Num 5000) (price ?o) = Inr (Num (1 / 2))"
    and xc: "fdiv (Num 2500) (price ?c) = Inr (Num (1 / 4))"
    by (simp_all add: quotient_values default_values)
  have q: "pyfloor (Num (1 / 2)) = Inr 0" and qc: "pyfloor (Num (1 / 4)) = Inr 0"
    by simp_all
  have none: "\<not> truthy (sl ?o)" "\<not> truthy (tp ?o)" "\<not> truthy (trailing_stop ?o)"
    and nonec: "\<not> truthy (sl ?c)" "\<not> truthy (tp ?c)" "\<not> truthy (trailing_stop ?c)"
    by (simp_all add: demo_signal_simps)
  have enough: "\<not> fless (Num 5000) (Num 1)" and enoughc: "\<not> fless (Num 2500) (Num 1)"
    by simp_all
  have regular: "\<not> False \<or> asset_class ?o = Crypto"
    and regularc: "\<not> True \<or> asset_class ?c = Crypto" by simp_all
  have dear: "fless (Num 5000) (price ?o)" by simp
  note t = default_market_order[OF acct n x q none enough regular, of False]
  note tc = default_market_order[OF acct nc xc qc nonec enoughc regularc, of False]
  have "exec_trade demo_env ?o False False [] =
      Some (submit_order_r demo_env ([] @ [GetAccount]) (market_request ?o 0),
            [] @ [GetAccount, SubmitOrder (market_request ?o 0)])"
    using t by blast
  then have "exec_trade demo_env ?o False False [] =
      Some (Inr (demo_order NEW), [GetAccount, SubmitOrder (market_request ?o 0)])"
    by (simp add: demo_env_simps)
  moreover have "request_type (market_request ?o 0) = MarketOrder"
    using t by blast
  moreover have "qty (market_request ?o 0) = of_int 0"
    using t by blast
  then have "qty (market_request ?o 0) = 0" by simp
  moreover have "exec_trade demo_env ?c True False [] =
      Some (submit_order_r demo_env ([] @ [GetAccount]) (market_request ?c 0),
            [] @ [GetAccount, SubmitOrder (market_request ?c 0)])"
    using tc by blast
  then have "exec_trade demo_env ?c True False [] =
      Some (Inr (demo_order NEW), [GetAccount, SubmitOrder (market_request ?c 0)])"
    by (simp add: demo_env_simps)
  ultimately show ?thesis using dear by blast
qed

section \<open>The exit-order path\<close>

lemma entry_request_single:
  assumes "entry_request ord ext n q = Inr req"
    and "\<not> (truthy (sl ord) \<and> truthy (tp ord))"
  shows "order_class req \<noteq> Some BRACKET"
  using entry_request_bracket[OF assms(1)] assms(2) by blast

lemma exec_trade_waited:
  assumes acct: "get_account_r E tr = Inr acct"
    and size: "size_order acct ord = Inr (n, q)"
    and entry: "entry_request ord ext n q = Inr req"
    and buy: "action ord = Buy"
    and cls: "order_class req \<noteq> Some BRACKET"
    and exit_set: "truthy (sl ord) \<or> truthy (tp ord) \<or> truthy (trailing_stop ord)"
    and sub: "submit_order_r E (tr @ [GetAccount]) req = Inr ao0"
    and wait: "fill_wait E (time_r E (tr @ [GetAccount, SubmitOrder req])) ao0
                 (tr @ [GetAccount, SubmitOrder req]) = Some (Inr ao, tr2)"
  shows "exec_trade E ord ext w tr =
     (if status ao \<noteq> FILLED then
        (case cancel_order_by_id_r E tr2 (id' ao) of
           Some e \<Rightarrow>
             (case handler E e (Some ao) (tr2 @ [CancelOrderById (id' ao)]) of
                (e', tr3) \<Rightarrow> Some (Inl e', tr3))
         | None \<Rightarrow> Some (Inr (ao\<lparr>status := CANCELED\<rparr>), tr2 @ [CancelOrderById (id' ao)]))
      else
        (case exit_request ord ao req of
           Inl e \<Rightarrow> (case handler E e (Some ao) tr2 of (e', tr3) \<Rightarrow> Some (Inl e', tr3))
         | Inr rq \<Rightarrow> submit_tail E rq w tr2))"
  using assms
  by (auto simp: exec_trade_def try_body_def Let_def split: option.splits sum.splits)

lemma exit_submitted:
  assumes run: "exec_trade E ord ext w tr = submit_tail E rq w tr2"
    and wait: "fill_wait E start ao0 (tr @ [GetAccount, SubmitOrder req]) = Some (res, tr2)"
    and ret: "exec_trade E ord ext w tr = Some (r, tr')"
  shows "submitted (drop (length tr) tr') = [req, rq]"
proof -
  from run ret have "submit_tail E rq w tr2 = Some (r, tr')" by simp
  from submit_tail_trace[OF this] obtain polls' where
    p': "tr' = tr2 @ SubmitOrder rq # polls'" "list_all is_poll polls'" by blast
  from fill_wait_trace[OF wait] obtain polls where
    p: "tr2 = (tr @ [GetAccount, SubmitOrder req]) @ polls" "list_all is_poll polls" by blast
  from p p' show ?thesis
    by (simp add: submitted_append submitted_polls)
qed

lemma exit_values:
  "round2 (fmul (Num (213 / 4)) (fsub (Num 1) (fl (1 / 50)))) = fl (5219 / 100)"
  "round2 (fmul (Num 100) (fsub (Num 1) (fl (1 / 20)))) = Num 95"
  "fmul (fl (7 / 100)) (Num 100) = Num (7881299347898369 / 2 ^ 50)"
  by (simp_all add: literals float_ops) (simp_all add: float_eval float_ops)

text \<open>
  Claim C3 (derivation of the exit order). Take a buy signal whose entry request was built
  and accepted, and whose fill wait returned the entry in status filled. If exactly one of
  \<open>sl\<close>, \<open>tp\<close>, \<open>trailing_stop\<close> is set (which makes the entry a non-bracket order),
  then exactly one further order is submitted, right after the wait, and the broker's answer
  to it is the result: for \<open>sl\<close> a stop order at \<open>round(filled_avg_price * (1 - sl), 2)\<close>,
  for \<open>tp\<close> a stop-limit order with limit \<open>round(filled_avg_price * (1 + tp), 2)\<close> and
  stop \<open>round(filled_avg_price * (1 - tp), 2)\<close>, for \<open>trailing_stop\<close> a trailing-stop
  order with \<open>trail_percent = trailing_stop * 100\<close>, all in Python's float arithmetic;
  each for the filled quantity, on the sell side, good till canceled.
\<close>

theorem exit_order_synthesis:
  assumes acct: "get_account_r E tr = Inr acct"
    and size: "size_order acct ord = Inr (n, q)"
    and entry: "entry_request ord ext n q = Inr req"
    and buy: "action ord = Buy"
    and sub: "submit_order_r E (tr @ [GetAccount]) req = Inr ao0"
    and wait: "fill_wait E (time_r E (tr @ [GetAccount, SubmitOrder req])) ao0
                 (tr @ [GetAccount, SubmitOrder req]) = Some (Inr ao, tr2)"
    and filled: "status ao = FILLED"
  shows "(sl ord = Some s \<and> truthy (Some s) \<and> \<not> truthy (tp ord) \<and> \<not> truthy (trailing_stop ord)
          \<and> filled_avg_price ao = Some p
          \<and> stop =
              \<lparr>request_type = StopOrder, symbol = ao_symbol ao, qty = filled_qty ao,
               time_in_force = GTC, side = SELL, req_extended_hours = False,
               limit_price = None, stop_price = Some (round2 (fmul p (fsub (Num 1) s))),
               trail_percent = None, stop_loss = None, take_profit = None,
               order_class = None\<rparr>
          \<longrightarrow> exec_trade E ord ext False tr =
                Some (submit_order_r E tr2 stop, tr2 @ [SubmitOrder stop])
              \<and> (\<forall>r tr'. exec_trade E ord ext w tr = Some (r, tr') \<longrightarrow>
                    submitted (drop (length tr) tr') = [req, stop]))
       \<and> (tp ord = Some t \<and> truthy (Some t) \<and> \<not> truthy (sl ord) \<and> \<not> truthy (trailing_stop ord)
          \<and> filled_avg_price ao = Some p
          \<and> stop_limit =
              \<lparr>request_type = StopLimitOrder, symbol = ao_symbol ao, qty = filled_qty ao,
               time_in_force = GTC, side = SELL, req_extended_hours = False,
               limit_price = Some (round2 (fmul p (fadd (Num 1) t))),
               stop_price = Some (round2 (fmul p (fsub (Num 1) t))),
               trail_percent = None, stop_loss = None, take_profit = None,
               order_class = None\<rparr>
          \<longrightarrow> exec_trade E ord ext False tr =
                Some (submit_order_r E tr2 stop_limit, tr2 @ [SubmitOrder stop_limit])
              \<and> (\<forall>r tr'. exec_trade E ord ext w tr = Some (r, tr') \<longrightarrow>
                    submitted (drop (length tr) tr') = [req, stop_limit]))
       \<and> (trailing_stop ord = Some d \<and> truthy (Some d) \<and> \<not> truthy (sl ord) \<and> \<not> truthy (tp ord)
          \<and> trailing =
              \<lparr>request_type = TrailingStopOrder, symbol = ao_symbol ao, qty = filled_qty ao,
               time_in_force = GTC, side = SELL, req_extended_hours = False,
               limit_price = None, stop_price = None, trail_percent = Some (fmul d (Num 100)),
               stop_loss = None, take_profit = None, order_class = None\<rparr>
          \<longrightarrow> exec_trade E ord ext False tr =
                Some (submit_order_r E tr2 trailing, tr2 @ [SubmitOrder trailing])
              \<and> (\<forall>r tr'. exec_trade E ord ext w tr = Some (r, tr') \<longrightarrow>
                    submitted (drop (length tr) tr') = [req, trailing]))"
proof -
  have derived: "exec_trade E ord ext False tr = Some (submit_order_r E tr2 rq, tr2 @ [SubmitOrder rq])
      \<and> (\<forall>r tr'. exec_trade E ord ext w tr = Some (r, tr') \<longrightarrow>
            submitted (drop (length tr) tr') = [req, rq])"
    if one: "\<not> (truthy (sl ord) \<and> truthy (tp ord))"
      and some: "truthy (sl ord) \<or> truthy (tp ord) \<or> truthy (trailing_stop ord)"
      and ex: "exit_request ord ao req = Inr rq" for rq
  proof -
    note cls = entry_request_single[OF entry one]
    have run: "exec_trade E ord ext w' tr = submit_tail E rq w' tr2" for w'
      using exec_trade_waited[OF acct size entry buy cls some sub wait, of w'] filled ex
      by simp
    show ?thesis
      using run[of False] exit_submitted[OF run wait] by (simp add: submit_tail_now)
  qed
  show ?thesis
  proof (intro conjI impI)
    assume a: "sl ord = Some s \<and> truthy (Some s) \<and> \<not> truthy (tp ord) \<and> \<not> truthy (trailing_stop ord)
          \<and> filled_avg_price ao = Some p
          \<and> stop =
              \<lparr>request_type = StopOrder, symbol = ao_symbol ao, qty = filled_qty ao,
               time_in_force = GTC, side = SELL, req_extended_hours = False,
               limit_price = None, stop_price = Some (round2 (fmul p (fsub (Num 1) s))),
               trail_percent = None, stop_loss = None, take_profit = None,
               order_class = None\<rparr>"
    then have "exit_request ord ao req = Inr stop" by (simp add: exit_request_def)
    with a derived[of stop]
    show "exec_trade E ord ext False tr = Some (submit_order_r E tr2 stop, tr2 @ [SubmitOrder stop])"
      and "\<forall>r tr'. exec_trade E ord ext w tr = Some (r, tr') \<longrightarrow>
                    submitted (drop (length tr) tr') = [req, stop]"
      by simp_all
  next
    assume a: "tp ord = Some t \<and> truthy (Some t) \<and> \<not> truthy (sl ord) \<and> \<not> truthy (trailing_stop ord)
          \<and> filled_avg_price ao = Some p
          \<and> stop_limit =
              \<lparr>request_type = StopLimitOrder, symbol = ao_symbol ao, qty = filled_qty ao,
               time_in_force = GTC, side = SELL, req_extended_hours = False,
               limit_price = Some (round2 (fmul p (fadd (Num 1) t))),
               stop_price = Some (round2 (fmul p (fsub (Num 1) t))),
               trail_percent = None, stop_loss = None, take_profit = None,
               order_class = None\<rparr>"
    then have "exit_request ord ao req = Inr stop_limit" by (simp add: exit_request_def)
    with a derived[of stop_limit]
    show "exec_trade E ord ext False tr =
            Some (submit_order_r E tr2 stop_limit, tr2 @ [SubmitOrder stop_limit])"
      and "\<forall>r tr'. exec_trade E ord ext w tr = Some (r, tr') \<longrightarrow>
                    submitted (drop (length tr) tr') = [req, stop_limit]"
      by simp_all
  next
    assume a: "trailing_stop ord = Some d \<and> truthy (Some d) \<and> \<not> truthy (sl ord) \<and> \<not> truthy (tp ord)
          \<and> trailing =
              \<lparr>request_type = TrailingStopOrder, symbol = ao_symbol ao, qty = filled_qty ao,
               time_in_force = GTC, side = SELL, req_extended_hours = False,
               limit_price = None, stop_price = None, trail_percent = Some (fmul d (Num 100)),
               stop_loss = None, take_profit = None, order_class = None\<rparr>"
    then have "exit_request ord ao req = Inr trailing" by (simp add: exit_request_def)
    with a derived[of trailing]
    show "exec_trade E ord ext False tr =
            Some (submit_order_r E tr2 trailing, tr2 @ [SubmitOrder trailing])"
      and "\<forall>r tr'. exec_trade E ord ext w tr = Some (r, tr') \<longrightarrow>
                    submitted (drop (length tr) tr') = [req, trailing]"
      by simp_all
  qed
qed

lemma fill_env_simps:
  "get_account_r (fill_env p) = (\<lambda>tr. Inr demo_account)"
  "submit_order_r (fill_env p) = (\<lambda>tr r. Inr (demo_order NEW))"
  "get_order_by_id_r (fill_env p) = (\<lambda>tr i. Inr (filled_at p))"
  by (simp_all add: fill_env_def demo_env_def)

lemma fill_env_wait:
  "fill_wait (fill_env p) start (demo_order NEW) tr =
     Some (Inr (filled_at p), tr @ [GetOrderById ''o1''])"
  by (subst fill_wait_poll[where ?tr1.0 = tr])
    (auto simp: demo_order_simps fill_env_simps FINISHED_STATUSES_def fill_wait_finished)

theorem exit_order_synthesis_witness:
  "exec_trade (fill_env (Num (213 / 4))) (demo_signal\<lparr>sl := Some (fl (1 / 50))\<rparr>) False False [] =
     Some (Inr (demo_order NEW),
       [GetAccount, SubmitOrder (market_request (demo_signal\<lparr>sl := Some (fl (1 / 50))\<rparr>) 50),
        GetOrderById ''o1'',
        SubmitOrder
          \<lparr>request_type = StopOrder, symbol = ''AAPL'', qty = 50,
           time_in_force = GTC, side = SELL, req_extended_hours = False,
           limit_price = None, stop_price = Some (fl (5219 / 100)),
           trail_percent = None, stop_loss = None, take_profit = None,
           order_class = None\<rparr>])
   \<and> exec_trade (fill_env (Num (201 / 2))) (demo_signal\<lparr>tp := Some (fl (1 / 20))\<rparr>) False False [] =
     Some (Inr (demo_order NEW),
       [GetAccount, SubmitOrder (market_request (demo_signal\<lparr>tp := Some (fl (1 / 20))\<rparr>) 50),
        GetOrderById ''o1'',
        SubmitOrder
          \<lparr>request_type = StopLimitOrder, symbol = ''AAPL'', qty = 50,
           time_in_force = GTC, side = SELL, req_extended_hours = False,
           limit_price = Some (fl (10553 / 100)), stop_price = Some (fl (9547 / 100)),
           trail_percent = None, stop_loss = None, take_profit = None,
           order_class = None\<rparr>])
   \<and> exec_trade (fill_env (Num 100)) (demo_signal\<lparr>trailing_stop := Some (fl (7 / 100))\<rparr>)
        False False [] =
     Some (Inr (demo_order NEW),
       [GetAccount,
        SubmitOrder (market_request (demo_signal\<lparr>trailing_stop := Some (fl (7 / 100))\<rparr>) 50),
        GetOrderById ''o1'',
        SubmitOrder
          \<lparr>request_type = TrailingStopOrder, symbol = ''AAPL'', qty = 50,
           time_in_force = GTC, side = SELL, req_extended_hours = False,
           limit_price = None, stop_price = None,
           trail_percent = Some (Num (7881299347898369 / 2 ^ 50)),
           stop_loss = None, take_profit = None, order_class = None\<rparr>])"
proof -
  let ?s = "demo_signal\<lparr>sl := Some (fl (1 / 50))\<rparr>"
  let ?t = "demo_signal\<lparr>tp := Some (fl (1 / 20))\<rparr>"
  let ?d = "demo_signal\<lparr>trailing_stop := Some (fl (7 / 100))\<rparr>"
  let ?stop = "\<lparr>request_type = StopOrder, symbol = ''AAPL'', qty = 50,
           time_in_force = GTC, side = SELL, req_extended_hours = False,
           limit_price = None, stop_price = Some (fl (5219 / 100)),
           trail_percent = None, stop_loss = None, take_profit = None,
           order_class = None\<rparr>"
  let ?stop_limit = "\<lparr>request_type = StopLimitOrder, symbol = ''AAPL'', qty = 50,
           time_in_force = GTC, side = SELL, req_extended_hours = False,
           limit_price = Some (fl (10553 / 100)), stop_price = Some (fl (9547 / 100)),
           trail_percent = None, stop_loss = None, take_profit = None,
           order_class = None\<rparr>"
  let ?trailing = "\<lparr>request_type = TrailingStopOrder, symbol = ''AAPL'', qty = 50,
           time_in_force = GTC, side = SELL, req_extended_hours = False,
           limit_price = None, stop_price = None,
           trail_percent = Some (Num (7881299347898369 / 2 ^ 50)),
           stop_loss = None, take_profit = None, order_class = None\<rparr>"
  have acct: "get_account_r (fill_env p) [] = Inr demo_account" for p
    by (simp add: fill_env_simps)
  have size: "size_order demo_account ?s = Inr (Num 5000, 50)"
    "size_order demo_account ?t = Inr (Num 5000, 50)"
    "size_order demo_account ?d = Inr (Num 5000, 50)"
    by (simp_all add: size_order_def demo_signal_simps demo_account_simps sizing_values
        quotient_values)
  have entry: "entry_request ?s False (Num 5000) 50 = Inr (market_request ?s 50)"
    "entry_request ?t False (Num 5000) 50 = Inr (market_request ?t 50)"
    "entry_request ?d False (Num 5000) 50 = Inr (market_request ?d 50)"
    by (simp_all add: entry_request_def demo_signal_simps literals)
  have buy: "action ?s = Buy" "action ?t = Buy" "action ?d = Buy"
    by (simp_all add: demo_signal_simps)
  have sub: "submit_order_r (fill_env p) ([] @ [GetAccount]) rq = Inr (demo_order NEW)" for p rq
    by (simp add: fill_env_simps)
  have filled: "status (filled_at p) = FILLED" for p by (simp add: demo_order_simps)
  have c1: "sl ?s = Some (fl (1 / 50)) \<and> truthy (Some (fl (1 / 50))) \<and> \<not> truthy (tp ?s)
      \<and> \<not> truthy (trailing_stop ?s) \<and> filled_avg_price (filled_at (Num (213 / 4))) = Some (Num (213 / 4))
      \<and> ?stop = \<lparr>request_type = StopOrder, symbol = ao_symbol (filled_at (Num (213 / 4))),
           qty = filled_qty (filled_at (Num (213 / 4))),
           time_in_force = GTC, side = SELL, req_extended_hours = False,
           limit_price = None,
           stop_price = Some (round2 (fmul (Num (213 / 4)) (fsub (Num 1) (fl (1 / 50))))),
           trail_percent = None, stop_loss = None, take_profit = None,
           order_class = None\<rparr>"
    by (simp add: demo_signal_simps demo_order_simps exit_values) (simp add: literals)
  have c2: "tp ?t = Some (fl (1 / 20)) \<and> truthy (Some (fl (1 / 20))) \<and> \<not> truthy (sl ?t)
      \<and> \<not> truthy (trailing_stop ?t) \<and> filled_avg_price (filled_at (Num (201 / 2))) = Some (Num (201 / 2))
      \<and> ?stop_limit = \<lparr>request_type = StopLimitOrder, symbol = ao_symbol (filled_at (Num (201 / 2))),
           qty = filled_qty (filled_at (Num (201 / 2))),
           time_in_force = GTC, side = SELL, req_extended_hours = False,
           limit_price = Some (round2 (fmul (Num (201 / 2)) (fadd (Num 1) (fl (1 / 20))))),
           stop_price = Some (round2 (fmul (Num (201 / 2)) (fsub (Num 1) (fl (1 / 20))))),
           trail_percent = None, stop_loss = None, take_profit = None,
           order_class = None\<rparr>"
    by (simp add: demo_signal_simps demo_order_simps bracket_values) (simp add: literals)
  have c3: "trailing_stop ?d = Some (fl (7 / 100)) \<and> truthy (Some (fl (7 / 100))) \<and> \<not> truthy (sl ?d)
      \<and> \<not> truthy (tp ?d)
      \<and> ?trailing = \<lparr>request_type = TrailingStopOrder, symbol = ao_symbol (filled_at (Num 100)),
           qty = filled_qty (filled_at (Num 100)),
           time_in_force = GTC, side = SELL, req_extended_hours = False,
           limit_price = None, stop_price = None,
           trail_percent = Some (fmul (fl (7 / 100)) (Num 100)),
           stop_loss = None, take_profit = None, order_class = None\<rparr>"
    by (simp add: demo_signal_simps demo_order_simps exit_values) (simp add: literals)
  note t1 = exit_order_synthesis[OF acct size(1) entry(1) buy(1) sub fill_env_wait filled,
      where s = "fl (1 / 50)" and p = "Num (213 / 4)" and stop = ?stop and w = False]
  note t2 = exit_order_synthesis[OF acct size(2) entry(2) buy(2) sub fill_env_wait filled,
      where t = "fl (1 / 20)" and p = "Num (201 / 2)" and stop_limit = ?stop_limit and w = False]
  note t3 = exit_order_synthesis[OF acct size(3) entry(3) buy(3) sub fill_env_wait filled,
      where d = "fl (7 / 100)" and trailing = ?trailing and w = False]
  have "exec_trade (fill_env (Num (213 / 4))) ?s False False [] =
      Some (submit_order_r (fill_env (Num (213 / 4)))
              (([] @ [GetAccount, SubmitOrder (market_request ?s 50)]) @ [GetOrderById ''o1'']) ?stop,
            (([] @ [GetAccount, SubmitOrder (market_request ?s 50)]) @ [GetOrderById ''o1''])
              @ [SubmitOrder ?stop])"
    using t1 c1 by blast
  moreover have "exec_trade (fill_env (Num (201 / 2))) ?t False False [] =
      Some (submit_order_r (fill_env (Num (201 / 2)))
              (([] @ [GetAccount, SubmitOrder (market_request ?t 50)]) @ [GetOrderById ''o1''])
              ?stop_limit,
            (([] @ [GetAccount, SubmitOrder (market_request ?t 50)]) @ [GetOrderById ''o1''])
              @ [SubmitOrder ?stop_limit])"
    using t2 c2 by blast
  moreover have "exec_trade (fill_env (Num 100)) ?d False False [] =
      Some (submit_order_r (fill_env (Num 100))
              (([] @ [GetAccount, SubmitOrder (market_request ?d 50)]) @ [GetOrderById ''o1''])
              ?trailing,
            (([] @ [GetAccount, SubmitOrder (market_request ?d 50)]) @ [GetOrderById ''o1''])
              @ [SubmitOrder ?trailing])"
    using t3 c3 by blast
  ultimately show ?thesis by (simp add: fill_env_simps)
qed

text \<open>
  Claim C4 (entry not filled). Take a buy signal with an exit field set whose non-bracket
  entry was accepted, and whose fill wait returned the entry in a status other than filled.
  Then \<open>exec_trade\<close> returns, and the call that follows the wait is
  \<open>cancel_order_by_id\<close> for that order. If the broker accepts the cancellation, the
  result is the order with its status set to canceled and nothing else happens; an
  exception is the result only if the cancellation raised. In no case is a stop,
  stop-limit or trailing-stop order submitted.
\<close>

theorem entry_not_filled:
  assumes acct: "get_account_r E tr = Inr acct"
    and size: "size_order acct ord = Inr (n, q)"
    and entry: "entry_request ord ext n q = Inr req"
    and buy: "action ord = Buy"
    and cls: "order_class req \<noteq> Some BRACKET"
    and exit_set: "truthy (sl ord) \<or> truthy (tp ord) \<or> truthy (trailing_stop ord)"
    and sub: "submit_order_r E (tr @ [GetAccount]) req = Inr ao0"
    and wait: "fill_wait E (time_r E (tr @ [GetAccount, SubmitOrder req])) ao0
                 (tr @ [GetAccount, SubmitOrder req]) = Some (Inr ao, tr2)"
    and unfilled: "status ao \<noteq> FILLED"
  shows "(cancel_order_by_id_r E tr2 (id' ao) = None \<longrightarrow>
            exec_trade E ord ext w tr =
              Some (Inr (ao\<lparr>status := CANCELED\<rparr>), tr2 @ [CancelOrderById (id' ao)]))
       \<and> (\<exists>r evs. exec_trade E ord ext w tr = Some (r, tr2 @ CancelOrderById (id' ao) # evs)
             \<and> (case r of
                   Inr a \<Rightarrow> a = ao\<lparr>status := CANCELED\<rparr> \<and> evs = []
                 | Inl e \<Rightarrow> cancel_order_by_id_r E tr2 (id' ao) \<noteq> None)
             \<and> list_all (\<lambda>x. \<not> is_exit_order x)
                  (submitted (drop (length tr) (tr2 @ CancelOrderById (id' ao) # evs))))"
proof -
  note run = exec_trade_waited[OF acct size entry buy cls exit_set sub wait, of w]
  from fill_wait_trace[OF wait] obtain polls where
    polls: "tr2 = (tr @ [GetAccount, SubmitOrder req]) @ polls" "list_all is_poll polls"
    by blast
  have req: "\<not> is_exit_order req"
    using entry
    by (auto simp: entry_request_def market_request_def bracket_request_def limit_request_def
        Let_def split: if_splits sum.splits)
  show ?thesis
  proof (cases "cancel_order_by_id_r E tr2 (id' ao)")
    case None
    with run unfilled have
      "exec_trade E ord ext w tr =
         Some (Inr (ao\<lparr>status := CANCELED\<rparr>), tr2 @ CancelOrderById (id' ao) # [])"
      by simp
    moreover have "list_all (\<lambda>x. \<not> is_exit_order x)
        (submitted (drop (length tr) (tr2 @ CancelOrderById (id' ao) # [])))"
      using polls req by (simp add: submitted_append submitted_polls)
    ultimately show ?thesis using None by force
  next
    case (Some e)
    obtain e' tr3 where h: "handler E e (Some ao) (tr2 @ [CancelOrderById (id' ao)]) = (e', tr3)"
      by (cases "handler E e (Some ao) (tr2 @ [CancelOrderById (id' ao)])")
    from handler_trace[OF h] obtain hs where
      hs: "tr3 = (tr2 @ [CancelOrderById (id' ao)]) @ hs"
        "submitted hs = [] \<or> submitted hs = [liquidation_request ao]"
      by auto
    from run unfilled Some h hs(1) have
      "exec_trade E ord ext w tr = Some (Inl e', tr2 @ CancelOrderById (id' ao) # hs)"
      by simp
    moreover have "list_all (\<lambda>x. \<not> is_exit_order x)
        (submitted (drop (length tr) (tr2 @ CancelOrderById (id' ao) # hs)))"
      using polls req hs(2)
      by (auto simp: submitted_append submitted_polls liquidation_request_def)
    ultimately show ?thesis using Some by force
  qed
qed

lemma stale_wait_entry:
  "fill_wait stale_env 20 (demo_order NEW) [GetAccount, SubmitOrder rq] =
     Some (Inr (demo_order NEW),
           [GetAccount, SubmitOrder rq, GetOrderById ''o1'', GetOrderById ''o1'',
            GetOrderById ''o1''])"
  apply (subst fill_wait.simps)
  apply (simp add: stale_env_simps demo_order_def FINISHED_STATUSES_def MAX_WAIT_def Let_def)
  apply (subst fill_wait.simps)
  apply (simp add: stale_env_simps demo_order_def FINISHED_STATUSES_def MAX_WAIT_def Let_def)
  apply (subst fill_wait.simps)
  apply (simp add: stale_env_simps demo_order_def FINISHED_STATUSES_def MAX_WAIT_def Let_def)
  done

lemma stop_signal_size:
  "size_order demo_account (demo_signal\<lparr>sl := Some (fl (1 / 20))\<rparr>) = Inr (Num 5000, 50)"
  by (simp add: size_order_def demo_signal_simps demo_account_simps sizing_values
      quotient_values)

lemma stop_signal_entry:
  "entry_request (demo_signal\<lparr>sl := Some (fl (1 / 20))\<rparr>) False (Num 5000) 50 =
     Inr (market_request (demo_signal\<lparr>sl := Some (fl (1 / 20))\<rparr>) 50)"
  by (simp add: entry_request_def demo_signal_simps literals)

theorem entry_not_filled_witness:
  "exec_trade stale_env (demo_signal\<lparr>sl := Some (fl (1 / 20))\<rparr>) False False [] =
     Some (Inr (demo_order CANCELED),
       [GetAccount, SubmitOrder (market_request (demo_signal\<lparr>sl := Some (fl (1 / 20))\<rparr>) 50),
        GetOrderById ''o1'', GetOrderById ''o1'', GetOrderById ''o1'',
        CancelOrderById ''o1''])"
proof -
  let ?s = "demo_signal\<lparr>sl := Some (fl (1 / 20))\<rparr>"
  let ?rq = "market_request ?s 50"
  let ?tr2 = "[GetAccount, SubmitOrder ?rq, GetOrderById ''o1'', GetOrderById ''o1'',
            GetOrderById ''o1'']"
  have acct: "get_account_r stale_env [] = Inr demo_account" by (simp add: stale_env_simps)
  note size = stop_signal_size
  note entry = stop_signal_entry
  have buy: "action ?s = Buy" by (simp add: demo_signal_simps)
  have cls: "order_class ?rq \<noteq> Some BRACKET" by (simp add: market_request_def)
  have exit_set: "truthy (sl ?s) \<or> truthy (tp ?s) \<or> truthy (trailing_stop ?s)"
    by (simp add: literals)
  have sub: "submit_order_r stale_env ([] @ [GetAccount]) ?rq = Inr (demo_order NEW)"
    by (simp add: stale_env_simps)
  have wait: "fill_wait stale_env (time_r stale_env ([] @ [GetAccount, SubmitOrder ?rq]))
      (demo_order NEW) ([] @ [GetAccount, SubmitOrder ?rq]) = Some (Inr (demo_order NEW), ?tr2)"
    using stale_wait_entry[of ?rq] by (simp add: stale_env_simps)
  have unfilled: "status (demo_order NEW) \<noteq> FILLED" by (simp add: demo_order_def)
  have ok: "cancel_order_by_id_r stale_env ?tr2 (id' (demo_order NEW)) = None"
    by (simp add: stale_env_simps)
  from entry_not_filled[OF acct size entry buy cls exit_set sub wait unfilled, of False] ok
  have "exec_trade stale_env ?s False False [] =
      Some (Inr ((demo_order NEW)\<lparr>status := CANCELED\<rparr>),
            ?tr2 @ [CancelOrderById (id' (demo_order NEW))])"
    by blast
  then show ?thesis by (simp add: demo_order_def)
qed

section \<open>Recovery after a failure\<close>

lemma handler_cases:
  "handler E e None tr = (UnboundLocalError, tr)"
  "status ao = FILLED \<Longrightarrow> submit_order_r E tr (liquidation_request ao) = Inr x \<Longrightarrow>
     handler E e (Some ao) tr = (e, tr @ [SubmitOrder (liquidation_request ao)])"
  "status ao = PARTIALLY_FILLED \<Longrightarrow> cancel_order_by_id_r E tr (id' ao) = None \<Longrightarrow>
     submit_order_r E (tr @ [CancelOrderById (id' ao)]) (liquidation_request ao) = Inr x \<Longrightarrow>
     handler E e (Some ao) tr =
       (e, tr @ [CancelOrderById (id' ao), SubmitOrder (liquidation_request ao)])"
  "status ao \<noteq> FILLED \<Longrightarrow> status ao \<noteq> PARTIALLY_FILLED \<Longrightarrow>
     handler E e (Some ao) tr = (e, tr)"
  by (simp_all add: handler_def Let_def)

text \<open>
  Claim C2 (recovery after a failure) says that a failure of the entry submission itself is
  propagated unchanged. The code does otherwise: when \<open>submit_order\<close> raises at line 175,
  the \<open>except\<close> block reads \<open>alpaca_order.status\<close> at line 232 while \<open>alpaca_order\<close> is
  still unbound, so an \<open>UnboundLocalError\<close> leaves \<open>exec_trade\<close> in place of the
  broker's exception.
\<close>

theorem entry_rejected_unbound:
  "submit_order_r reject_env [GetAccount]
       (market_request (demo_signal\<lparr>sl := Some (fl (1 / 20))\<rparr>) 50)
     = Inl (APIError ''insufficient buying power'')
   \<and> exec_trade reject_env (demo_signal\<lparr>sl := Some (fl (1 / 20))\<rparr>) False False [] =
       Some (Inl UnboundLocalError,
             [GetAccount, SubmitOrder (market_request (demo_signal\<lparr>sl := Some (fl (1 / 20))\<rparr>) 50)])"
proof -
  have acct: "get_account_r reject_env [] = Inr demo_account"
    and sub: "submit_order_r reject_env t rq = Inl (APIError ''insufficient buying power'')"
    for t rq
    by (simp_all add: reject_env_def demo_env_def)
  have cls: "order_class (market_request (demo_signal\<lparr>sl := Some (fl (1 / 20))\<rparr>) 50) = None"
    by (simp add: market_request_def)
  have exit_set: "truthy (Some (fl (1 / 20)))" by (simp add: literals)
  show ?thesis
    by (simp add: exec_trade_def try_body_def handler_def acct sub cls stop_signal_size
        stop_signal_entry demo_signal_simps exit_set Let_def)
qed

text \<open>
  The exit order itself is submitted after the \<open>try\<close> block (lines 250-253): when the broker
  refuses it, the exception leaves \<open>exec_trade\<close> and the filled entry is not sold.
\<close>

lemma exit_rejected_no_liquidation:
  "exec_trade exit_reject_env (demo_signal\<lparr>sl := Some (fl (1 / 20))\<rparr>) False False [] =
     Some (Inl (APIError ''order rejected''),
       [GetAccount, SubmitOrder (market_request (demo_signal\<lparr>sl := Some (fl (1 / 20))\<rparr>) 50),
        GetOrderById ''o1'',
        SubmitOrder
          \<lparr>request_type = StopOrder, symbol = ''AAPL'', qty = 50,
           time_in_force = GTC, side = SELL, req_extended_hours = False,
           limit_price = None, stop_price = Some (Num 95),
           trail_percent = None, stop_loss = None, take_profit = None,
           order_class = None\<rparr>])"
proof -
  let ?s = "demo_signal\<lparr>sl := Some (fl (1 / 20))\<rparr>"
  let ?rq = "market_request ?s 50"
  have acct: "get_account_r exit_reject_env [] = Inr demo_account"
    by (simp add: exit_reject_env_def demo_env_def)
  note size = stop_signal_size
  note entry = stop_signal_entry
  have buy: "action ?s = Buy" by (simp add: demo_signal_simps)
  have cls: "order_class ?rq \<noteq> Some BRACKET" by (simp add: market_request_def)
  have exit_set: "truthy (sl ?s) \<or> truthy (tp ?s) \<or> truthy (trailing_stop ?s)"
    by (simp add: literals)
  have sub: "submit_order_r exit_reject_env ([] @ [GetAccount]) ?rq = Inr (demo_order NEW)"
    by (simp add: exit_reject_env_def demo_env_def)
  have wait: "fill_wait exit_reject_env (time_r exit_reject_env ([] @ [GetAccount, SubmitOrder ?rq]))
      (demo_order NEW) ([] @ [GetAccount, SubmitOrder ?rq])
      = Some (Inr demo_filled, [GetAccount, SubmitOrder ?rq, GetOrderById ''o1''])"
    by (subst fill_wait_poll[where ?tr1.0 = "[] @ [GetAccount, SubmitOrder ?rq]"])
      (auto simp: demo_order_simps exit_reject_env_def demo_env_def
        FINISHED_STATUSES_def fill_wait_finished)
  have ex: "exit_request ?s demo_filled ?rq =
      Inr \<lparr>request_type = StopOrder, symbol = ''AAPL'', qty = 50,
           time_in_force = GTC, side = SELL, req_extended_hours = False,
           limit_price = None, stop_price = Some (Num 95),
           trail_percent = None, stop_loss = None, take_profit = None,
           order_class = None\<rparr>"
    by (simp add: exit_request_def demo_filled_def demo_order_simps exit_values)
      (simp add: literals)
  show ?thesis
    by (simp add: exec_trade_waited[OF acct size entry buy cls exit_set sub wait]
        submit_tail_now demo_order_simps ex)
      (simp add: exit_reject_env_def demo_env_def)
qed

section \<open>The webhook\<close>

lemma submit_tail_returns:
  assumes "clock_advances E d"
  shows "\<exists>y. submit_tail E req w tr = Some y"
proof (cases "submit_order_r E tr req")
  case (Inl e)
  then show ?thesis by (simp add: submit_tail_def Let_def)
next
  case (Inr ao0)
  obtain res tr2 where
    "fill_wait E (time_r E (tr @ [SubmitOrder req])) ao0 (tr @ [SubmitOrder req]) = Some (res, tr2)"
    using fill_wait_returns[OF assms] by (metis surj_pair)
  with Inr show ?thesis
    by (cases res) (auto simp: submit_tail_def Let_def)
qed

lemma try_body_returns:
  assumes "clock_advances E d"
  shows "\<exists>y. try_body E ord req tr = Some y"
proof (cases "truthy (sl ord) \<or> truthy (tp ord) \<or> truthy (trailing_stop ord)")
  case False
  then show ?thesis by (simp add: try_body_def)
next
  case True
  show ?thesis
  proof (cases "submit_order_r E tr req")
    case (Inl e)
    with True show ?thesis by (simp add: try_body_def Let_def)
  next
    case (Inr ao0)
    obtain res tr2 where
      "fill_wait E (time_r E (tr @ [SubmitOrder req])) ao0 (tr @ [SubmitOrder req]) = Some (res, tr2)"
      using fill_wait_returns[OF assms] by (metis surj_pair)
    with Inr True show ?thesis
      by (cases res) (auto simp: try_body_def Let_def split: option.splits sum.splits)
  qed
qed

lemma exec_trade_returns:
  assumes "clock_advances E d"
  shows "\<exists>y. exec_trade E ord ext w tr = Some y"
proof -
  have tail: "\<exists>y. submit_tail E rq w t = Some y" for rq t
    using assms by (rule submit_tail_returns)
  have body: "\<exists>y. try_body E ord rq t = Some y" for rq t
    using assms by (rule try_body_returns)
  show ?thesis
  proof (cases "get_account_r E tr")
    case (Inl e)
    then show ?thesis by (simp add: exec_trade_def Let_def)
  next
    case acct: (Inr a)
    show ?thesis
    proof (cases "size_order a ord")
      case (Inl e)
      with acct show ?thesis by (simp add: exec_trade_def Let_def)
    next
      case (Inr nq)
      then obtain n q where size: "size_order a ord = Inr (n, q)" by (cases nq) simp
      show ?thesis
      proof (cases "entry_request ord ext n q")
        case (Inl e)
        with acct size show ?thesis by (simp add: exec_trade_def Let_def)
      next
        case entry: (Inr req)
        show ?thesis
        proof (cases "order_class req \<noteq> Some BRACKET \<and> action ord = Buy")
          case False
          with acct size entry tail[of req "tr @ [GetAccount]"] show ?thesis
            by (auto simp: exec_trade_def Let_def)
        next
          case True
          from body[of req "tr @ [GetAccount]"] obtain res tr1 where
            tb: "try_body E ord req (tr @ [GetAccount]) = Some (res, tr1)" by auto
          show ?thesis
          proof (cases res)
            case (Continue rq)
            with acct size entry True tb tail[of rq tr1] show ?thesis
              by (auto simp: exec_trade_def Let_def)
          next
            case (Return ao)
            with acct size entry True tb show ?thesis
              by (auto simp: exec_trade_def Let_def)
          next
            case (Raise e b)
            with acct size entry True tb show ?thesis
              by (auto simp: exec_trade_def Let_def split: prod.splits)
          qed
        qed
      qed
    qed
  qed
qed

lemma exec_trade_starts:
  assumes "exec_trade E ord ext w tr = Some (r, tr')"
  shows "\<exists>evs. tr' = tr @ GetAccount # evs"
proof (cases "get_account_r E tr")
  case (Inl e)
  with assms show ?thesis by (auto simp: exec_trade_def Let_def)
next
  case acct: (Inr a)
  show ?thesis
  proof (cases "size_order a ord")
    case (Inl e)
    with acct assms show ?thesis by (auto simp: exec_trade_def Let_def)
  next
    case (Inr nq)
    then obtain n q where size: "size_order a ord = Inr (n, q)" by (cases nq) simp
    show ?thesis
    proof (cases "entry_request ord ext n q")
      case (Inl e)
      with acct size assms show ?thesis by (auto simp: exec_trade_def Let_def)
    next
      case entry: (Inr req)
      from exec_trade_trace[OF assms acct size entry] show ?thesis by blast
    qed
  qed
qed

lemma open_position_cases:
  assumes "open_position E ord ext tr = Some (r, tr')"
  shows "\<exists>x. exec_trade E ord ext False tr = Some (x, tr')
           \<and> (case x of
                 Inl e \<Rightarrow> r = Inl e
               | Inr new_order \<Rightarrow> r = Inr (OrderBody (ord\<lparr>order_id := Some (id' new_order)\<rparr>)))"
  using assms
  by (auto simp: open_position_def split: option.splits sum.splits prod.splits)

lemma open_position_returns:
  assumes "clock_advances E d"
  shows "\<exists>y. open_position E ord ext tr = Some y"
proof -
  from exec_trade_returns[OF assms] obtain x tr' where
    "exec_trade E ord ext False tr = Some (x, tr')" by (metis surj_pair)
  then show ?thesis by (cases x) (simp_all add: open_position_def)
qed

text \<open>
  The request of line 278 cannot be built from a float, so \<open>close_position\<close> never
  reaches the broker: it returns \<open>None\<close> and the trace is left as it was.
\<close>

lemma close_position_skipped:
  "close_position E t percentage w tr = Some (None, tr)"
  by (simp add: close_position_def ClosePositionRequest_def)

lemma reconcile_returns:
  assumes "clock_advances E d"
  shows "\<exists>y. reconcile E ord ext tr = Some y"
proof -
  have op: "\<exists>y. open_position E ord ext t = Some y" for t
    using assms by (rule open_position_returns)
  show ?thesis
  proof (cases "get_open_position_r E tr (ticker ord)")
    case (Inl e)
    then show ?thesis using op
      by (auto simp: reconcile_def get_current_position_def Let_def
          split: option.splits sum.splits)
  next
    case (Inr pos)
    with op[of "tr @ [GetOpenPosition (ticker ord)]"] show ?thesis
      by (auto simp: reconcile_def get_current_position_def close_position_skipped)
  qed
qed

lemma reconcile_responses:
  assumes "reconcile E ord ext tr = Some (Inr (JSONResponse msg code), tr')"
  shows "msg = ''Slippage too high'' \<and> code = 412"
proof -
  have op: "open_position E ord ext t \<noteq> Some (Inr (JSONResponse msg code), tr')" for t
    by (auto simp: open_position_def split: option.splits sum.splits prod.splits)
  show ?thesis
  proof (cases "get_open_position_r E tr (ticker ord)")
    case (Inl e)
    with assms op show ?thesis
      by (auto simp: reconcile_def get_current_position_def Let_def
          split: option.splits sum.splits if_splits)
  next
    case (Inr pos)
    with assms op show ?thesis
      by (auto simp: reconcile_def get_current_position_def close_position_skipped
          split: option.splits if_splits)
  qed
qed

text \<open>
  Claim C6 (pattern-day-trade guard). For a request that reaches the guard (whitelisted
  address, not test mode, a configured account, clock and account read), the webhook answers
  with the pattern-day-trader refusal (status 429) exactly when \<open>daytrade_count \<ge> 3\<close> and
  \<open>equity < 25000\<close>; an equity of exactly 25000 is therefore not refused. The refusal
  comes after the clock and account reads only: no order is submitted, no position closed.
\<close>

theorem pattern_day_trade_guard:
  assumes ip: "ip_in ip (IP_WHITELIST S)"
    and live: "\<not> TEST_MODE S"
    and known: "name \<in> set (accounts S)"
    and clk: "get_clock_r E tr = Inr c"
    and acct: "get_account_r E (tr @ [GetClock]) = Inr acct"
  shows "((\<exists>tr'. webhook S E name ord ip tr =
                   Some (Inr (JSONResponse ''Pattern day trader'' 429), tr'))
            \<longleftrightarrow> 3 \<le> daytrade_count acct \<and> equity acct < 25000)
       \<and> (3 \<le> daytrade_count acct \<and> equity acct < 25000 \<longrightarrow>
            webhook S E name ord ip tr =
              Some (Inr (JSONResponse ''Pattern day trader'' 429), tr @ [GetClock, GetAccount]))"
proof -
  have refused: "webhook S E name ord ip tr =
      Some (Inr (JSONResponse ''Pattern day trader'' 429), tr @ [GetClock, GetAccount])"
    if "3 \<le> daytrade_count acct \<and> equity acct < 25000"
    using that assms by (simp add: webhook_def is_extended_hours_def Let_def)
  have passed: "webhook S E name ord ip tr \<noteq>
      Some (Inr (JSONResponse ''Pattern day trader'' 429), tr')"
    if no: "\<not> (3 \<le> daytrade_count acct \<and> equity acct < 25000)" for tr'
  proof -
    from no assms obtain x where
      w: "webhook S E name ord ip tr =
            reconcile E (with_defaults name ord) x (tr @ [GetClock, GetAccount])"
      by (auto simp: webhook_def is_extended_hours_def Let_def)
    show ?thesis
    proof
      assume "webhook S E name ord ip tr =
          Some (Inr (JSONResponse ''Pattern day trader'' 429), tr')"
      with w have "reconcile E (with_defaults name ord) x (tr @ [GetClock, GetAccount]) =
          Some (Inr (JSONResponse ''Pattern day trader'' 429), tr')" by simp
      from reconcile_responses[OF this] show False by simp
    qed
  qed
  from refused passed show ?thesis by blast
qed

theorem pattern_day_trade_guard_witness:
  "webhook demo_settings (pdt_env 20000) ''acct'' demo_signal (Single ''10.0.0.1'') [] =
     Some (Inr (JSONResponse ''Pattern day trader'' 429), [GetClock, GetAccount])
   \<and> \<not> (\<exists>tr'. webhook demo_settings (pdt_env 25000) ''acct'' demo_signal (Single ''10.0.0.1'') [] =
                 Some (Inr (JSONResponse ''Pattern day trader'' 429), tr'))"
proof -
  have ip: "ip_in (Single ''10.0.0.1'') (IP_WHITELIST demo_settings)"
    and live: "\<not> TEST_MODE demo_settings"
    and known: "''acct'' \<in> set (accounts demo_settings)"
    by (simp_all add: demo_settings_def)
  have clk: "get_clock_r (pdt_env eq) [] = Inr \<lparr>is_open = True, hour = 10\<rparr>" for eq
    by (simp add: pdt_env_def demo_env_def)
  have acct: "get_account_r (pdt_env eq) ([] @ [GetClock])
      = Inr (demo_account\<lparr>equity := eq, daytrade_count := 3\<rparr>)" for eq
    by (simp add: pdt_env_def demo_env_def)
  have low: "3 \<le> daytrade_count (demo_account\<lparr>equity := 20000, daytrade_count := 3\<rparr>)
      \<and> equity (demo_account\<lparr>equity := 20000, daytrade_count := 3\<rparr>) < 25000"
    by simp
  have edge: "\<not> (3 \<le> daytrade_count (demo_account\<lparr>equity := 25000, daytrade_count := 3\<rparr>)
      \<and> equity (demo_account\<lparr>equity := 25000, daytrade_count := 3\<rparr>) < 25000)"
    by simp
  from pattern_day_trade_guard[OF ip live known clk acct, of 20000 demo_signal] low
  have "webhook demo_settings (pdt_env 20000) ''acct'' demo_signal (Single ''10.0.0.1'') [] =
     Some (Inr (JSONResponse ''Pattern day trader'' 429), [] @ [GetClock, GetAccount])"
    by blast
  moreover from pattern_day_trade_guard[OF ip live known clk acct, of 25000 demo_signal] edge
  have "\<not> (\<exists>tr'. webhook demo_settings (pdt_env 25000) ''acct'' demo_signal (Single ''10.0.0.1'') [] =
                 Some (Inr (JSONResponse ''Pattern day trader'' 429), tr'))"
    by blast
  ultimately show ?thesis by simp
qed

end
